theory Spec2Isabelle
  imports Complex_Main
begin

section \<open>JavaScript values\<close>

text \<open>
  Strings are lists of characters; a character stands for one code unit in the range
  0..255. Exceptions are values of type \<open>error\<close>; a computation that may throw returns
  \<open>error + 'a\<close> with \<open>Inl\<close> for the exception.
\<close>

datatype error =
    TypeError string
  | ReferenceError string
  | SyntaxError string

text \<open>
  A \<open>classList\<close> is the ordered set of class names of an element: \<open>add\<close> appends a name
  that is not there yet, \<open>remove\<close> deletes it, \<open>toggle\<close> removes it when present and
  adds it otherwise.
\<close>

type_synonym classList = "string list"

definition contains :: "classList \<Rightarrow> string \<Rightarrow> bool" where
  "contains cl c = (c \<in> set cl)"

definition add :: "string \<Rightarrow> classList \<Rightarrow> classList" where
  "add c cl = (if c \<in> set cl then cl else cl @ [c])"

definition remove :: "string \<Rightarrow> classList \<Rightarrow> classList" where
  "remove c cl = removeAll c cl"

definition toggle :: "string \<Rightarrow> classList \<Rightarrow> classList" where
  "toggle c cl = (if c \<in> set cl then remove c cl else add c cl)"

section \<open>Navigation controller (navigation.js)\<close>

definition activeClass :: string where
  "activeClass = ''active''"

subsection \<open>Menu toggle\<close>

text \<open>
  \<open>setupMenuToggle\<close> registers three listeners that all act on the class lists of the
  two elements \<open>#menu-toggle\<close> and \<open>#nav-menu\<close>. The state is the pair of class lists; each
  listener is a function on it. \<open>DocumentClick inside\<close> is the listener on the document,
  where \<open>inside\<close> tells whether \<open>event.target.closest('#navbar')\<close> found an element.
\<close>

record menu =
  menuToggle :: classList
  navMenu :: classList

datatype listener = ToggleClick | LinkClick | DocumentClick bool

fun fire :: "listener \<Rightarrow> menu \<Rightarrow> menu" where
  "fire ToggleClick m =
     m\<lparr>menuToggle := toggle activeClass (menuToggle m),
       navMenu := toggle activeClass (navMenu m)\<rparr>"
| "fire LinkClick m =
     m\<lparr>menuToggle := remove activeClass (menuToggle m),
       navMenu := remove activeClass (navMenu m)\<rparr>"
| "fire (DocumentClick isClickInside) m =
     (if \<not> isClickInside \<and> contains (navMenu m) activeClass
      then m\<lparr>menuToggle := remove activeClass (menuToggle m),
             navMenu := remove activeClass (navMenu m)\<rparr>
      else m)"

text \<open>Any sequence of listener invocations, oldest first.\<close>

definition fire_all :: "listener list \<Rightarrow> menu \<Rightarrow> menu" where
  "fire_all ls m = foldl (\<lambda>s l. fire l s) m ls"

definition in_sync :: "menu \<Rightarrow> bool" where
  "in_sync m = (contains (menuToggle m) activeClass = contains (navMenu m) activeClass)"

subsection \<open>Scroll-spy\<close>

text \<open>
  A section is read through \<open>offsetTop\<close> (an integer number of pixels) and
  \<open>getAttribute('id')\<close>, a navigation link through \<open>getAttribute('data-section')\<close> and its
  class list. \<open>getAttribute\<close> returns \<open>null\<close> for a missing attribute: \<open>None\<close> here.
  \<open>window.scrollY\<close> may be fractional and is a real number.
\<close>

record section_el =
  offsetTop :: int
  id_attr :: "string option"

record nav_link =
  data_section :: "string option"
  classes :: classList

text \<open>The first loop of the handler: \<open>current\<close> starts as the empty string.\<close>

definition current_section :: "real \<Rightarrow> section_el list \<Rightarrow> string option" where
  "current_section scrollY sections =
     foldl (\<lambda>current s. if scrollY \<ge> real_of_int (offsetTop s) - 100 then id_attr s else current)
       (Some []) sections"

text \<open>The second loop: every link loses the class, the matching ones get it back.\<close>

definition update_link :: "string option \<Rightarrow> nav_link \<Rightarrow> nav_link" where
  "update_link current l =
     (let l1 = l\<lparr>classes := remove activeClass (classes l)\<rparr>
      in if data_section l1 = current then l1\<lparr>classes := add activeClass (classes l1)\<rparr> else l1)"

definition scroll_handler :: "real \<Rightarrow> section_el list \<Rightarrow> nav_link list \<Rightarrow> nav_link list" where
  "scroll_handler scrollY sections navLinks =
     map (update_link (current_section scrollY sections)) navLinks"

text \<open>
  The words of the specification: a section qualifies when its top lies at or above the
  scroll offset plus 100 pixels; the section that counts is the last one that qualifies.
\<close>

definition qualifies :: "real \<Rightarrow> section_el \<Rightarrow> bool" where
  "qualifies scrollY s = (real_of_int (offsetTop s) \<le> scrollY + 100)"

definition last_qualifying :: "real \<Rightarrow> section_el list \<Rightarrow> section_el option" where
  "last_qualifying scrollY sections =
     (case filter (qualifies scrollY) sections of [] \<Rightarrow> None | q # qs \<Rightarrow> Some (last (q # qs)))"

definition is_active :: "nav_link \<Rightarrow> bool" where
  "is_active l = contains (classes l) activeClass"

section \<open>Form controller (main.js)\<close>

subsection \<open>Strings and the email pattern\<close>

text \<open>
  The white space of \<open>trim\<close> and of the regular expression class \<open>\s\<close> is the same set
  of code units; below 256 these are tab, line feed, vertical tab, form feed, carriage
  return, space and the no-break space.
\<close>

definition is_space :: "char \<Rightarrow> bool" where
  "is_space c = (c \<in> set [CHR 0x09, CHR 0x0A, CHR 0x0B, CHR 0x0C, CHR 0x0D, CHR 0x20, CHR 0xA0])"

definition trim :: "string \<Rightarrow> string" where
  "trim s = rev (dropWhile is_space (rev (dropWhile is_space s)))"

text \<open>
  The regular expression of \<open>config.emailRegex\<close> is a sequence of atoms, each taken once
  or one or more times (\<open>+\<close>), between the anchors \<open>^\<close> and \<open>$\<close>. An atom is a literal
  character or a negated class \<open>[^...]\<close> whose members are \<open>\s\<close> or single characters.
\<close>

datatype class_member = Whitespace | Single char

datatype atom = Lit char | NoneOf "class_member list"

datatype quantifier = Once | Plus

type_synonym regex = "(atom \<times> quantifier) list"

fun member_matches :: "class_member \<Rightarrow> char \<Rightarrow> bool" where
  "member_matches Whitespace c = is_space c"
| "member_matches (Single d) c = (c = d)"

fun atom_matches :: "atom \<Rightarrow> char \<Rightarrow> bool" where
  "atom_matches (Lit d) c = (c = d)"
| "atom_matches (NoneOf ms) c = (\<not> list_ex (\<lambda>m. member_matches m c) ms)"

text \<open>\<open>regex_test r s\<close>: the anchored expression \<open>r\<close> matches the whole of \<open>s\<close>.\<close>

fun regex_test :: "regex \<Rightarrow> string \<Rightarrow> bool" where
  "regex_test [] s = (s = [])"
| "regex_test ((a, q) # r) [] = False"
| "regex_test ((a, Once) # r) (c # cs) = (atom_matches a c \<and> regex_test r cs)"
| "regex_test ((a, Plus) # r) (c # cs) =
     (atom_matches a c \<and> (regex_test ((a, Plus) # r) cs \<or> regex_test r cs))"

text \<open>\<open>/^[^\s@]+@[^\s@]+\.[^\s@]+$/\<close>\<close>

definition emailRegex :: regex where
  "emailRegex =
     [(NoneOf [Whitespace, Single (CHR ''@'')], Plus), (Lit (CHR ''@''), Once),
      (NoneOf [Whitespace, Single (CHR ''@'')], Plus), (Lit (CHR ''.''), Once),
      (NoneOf [Whitespace, Single (CHR ''@'')], Plus)]"

subsection \<open>The contact form\<close>

text \<open>
  The page as the form controller sees it: the three inputs of the form (their value,
  the value \<open>reset\<close> restores, their class list), the \<open>.field-error\<close> elements of the form in
  the order of their creation (the input each was appended next to, and its text), the
  submit button when the form has one, the notifications appended to the body (class
  name and text) and the console output.
\<close>

record field =
  input_value :: string
  defaultValue :: string
  field_classes :: classList

record button =
  disabled :: bool
  textContent :: string

datatype field_id = NameInput | EmailInput | MessageInput

record contact_page =
  nameInput :: field
  emailInput :: field
  messageInput :: field
  fieldErrors :: "(field_id \<times> string) list"
  submitBtn :: "button option"
  alerts :: "(string \<times> string) list"
  console :: "string list"

definition add_error_class :: "field \<Rightarrow> field" where
  "add_error_class f = f\<lparr>field_classes := add ''error'' (field_classes f)\<rparr>"

definition remove_error_class :: "field \<Rightarrow> field" where
  "remove_error_class f = f\<lparr>field_classes := remove ''error'' (field_classes f)\<rparr>"

fun showFieldError :: "field_id \<Rightarrow> string \<Rightarrow> contact_page \<Rightarrow> contact_page" where
  "showFieldError NameInput message p =
     p\<lparr>nameInput := add_error_class (nameInput p),
       fieldErrors := fieldErrors p @ [(NameInput, message)]\<rparr>"
| "showFieldError EmailInput message p =
     p\<lparr>emailInput := add_error_class (emailInput p),
       fieldErrors := fieldErrors p @ [(EmailInput, message)]\<rparr>"
| "showFieldError MessageInput message p =
     p\<lparr>messageInput := add_error_class (messageInput p),
       fieldErrors := fieldErrors p @ [(MessageInput, message)]\<rparr>"

definition clearErrors :: "contact_page \<Rightarrow> contact_page" where
  "clearErrors p =
     p\<lparr>nameInput := remove_error_class (nameInput p),
       emailInput := remove_error_class (emailInput p),
       messageInput := remove_error_class (messageInput p),
       fieldErrors := []\<rparr>"

text \<open>
  \<open>validateForm\<close> runs its three blocks one after the other on the pair of the flag
  \<open>isValid\<close> and the page.
\<close>

definition validate_name :: "bool \<times> contact_page \<Rightarrow> bool \<times> contact_page" where
  "validate_name = (\<lambda>(isValid, p).
     if trim (input_value (nameInput p)) = []
     then (False, showFieldError NameInput ''Name is required'' p)
     else (isValid, p))"

definition validate_email :: "bool \<times> contact_page \<Rightarrow> bool \<times> contact_page" where
  "validate_email = (\<lambda>(isValid, p).
     if trim (input_value (emailInput p)) = []
     then (False, showFieldError EmailInput ''Email is required'' p)
     else if \<not> regex_test emailRegex (input_value (emailInput p))
     then (False, showFieldError EmailInput ''Please enter a valid email'' p)
     else (isValid, p))"

definition validate_message :: "bool \<times> contact_page \<Rightarrow> bool \<times> contact_page" where
  "validate_message = (\<lambda>(isValid, p).
     if trim (input_value (messageInput p)) = []
     then (False, showFieldError MessageInput ''Message is required'' p)
     else if length (trim (input_value (messageInput p))) < 10
     then (False, showFieldError MessageInput ''Message must be at least 10 characters'' p)
     else (isValid, p))"

definition validateForm :: "contact_page \<Rightarrow> bool \<times> contact_page" where
  "validateForm p = validate_message (validate_email (validate_name (True, clearErrors p)))"

subsection \<open>Notifications and submission\<close>

text \<open>
  A notification is an element appended to the body. Its removal after the display
  duration and the 1500 ms wait of the submission are matters of time and are not
  represented: the handler is followed from its call to its end.
\<close>

definition showNotification :: "string \<Rightarrow> string \<Rightarrow> contact_page \<Rightarrow> contact_page" where
  "showNotification message type p = p\<lparr>alerts := alerts p @ [(''alert alert-'' @ type, message)]\<rparr>"

definition showSuccessMessage :: "string \<Rightarrow> contact_page \<Rightarrow> contact_page" where
  "showSuccessMessage message p = showNotification message ''success'' p"

definition showErrorMessage :: "string \<Rightarrow> contact_page \<Rightarrow> contact_page" where
  "showErrorMessage message p = showNotification message ''danger'' p"

definition logEvent :: "string \<Rightarrow> contact_page \<Rightarrow> contact_page" where
  "logEvent eventName p = p\<lparr>console := console p @ [''Event: '' @ eventName]\<rparr>"

definition reset_field :: "field \<Rightarrow> field" where
  "reset_field f = f\<lparr>input_value := defaultValue f\<rparr>"

definition reset :: "contact_page \<Rightarrow> contact_page" where
  "reset p = p\<lparr>nameInput := reset_field (nameInput p),
               emailInput := reset_field (emailInput p),
               messageInput := reset_field (messageInput p)\<rparr>"

text \<open>
  Identifiers are resolved through the chain of lexical scopes, innermost first. A
  scope lists the names it declares; the value matters only for \<open>originalText\<close>. A name
  that no scope of the chain declares throws a \<open>ReferenceError\<close>.
\<close>

datatype binding = StringValue string | OtherValue

type_synonym scope = "(string \<times> binding) list"

definition resolve :: "scope list \<Rightarrow> string \<Rightarrow> error + binding" where
  "resolve chain x =
     (case map_of (concat chain) x of
        None \<Rightarrow> Inl (ReferenceError (x @ '' is not defined''))
      | Some v \<Rightarrow> Inr v)"

text \<open>The scopes around the body of \<open>handleFormSubmit\<close>.\<close>

definition global_scope :: scope where
  "global_scope = map (\<lambda>x. (x, OtherValue))
     [''App'', ''window'', ''document'', ''console'', ''FormData'', ''Object'', ''Promise'', ''setTimeout'']"

definition module_scope :: scope where
  "module_scope = map (\<lambda>x. (x, OtherValue))
     [''config'', ''init'', ''setupContactForm'', ''handleFormSubmit'', ''validateForm'',
      ''showFieldError'', ''clearErrors'', ''showSuccessMessage'', ''showErrorMessage'',
      ''showNotification'', ''logEvent'', ''addAnimations'']"

definition function_scope :: scope where
  "function_scope = map (\<lambda>x. (x, OtherValue)) [''form'', ''formData'', ''data'']"

text \<open>The block of \<open>try\<close> declares \<open>submitBtn\<close> and \<open>originalText\<close>.\<close>

definition try_scope :: "button \<Rightarrow> scope" where
  "try_scope b = [(''submitBtn'', OtherValue), (''originalText'', StringValue (textContent b))]"

text \<open>The block of \<open>finally\<close> declares its own \<open>submitBtn\<close> and nothing else.\<close>

definition finally_scope :: scope where
  "finally_scope = [(''submitBtn'', OtherValue)]"

text \<open>
  The \<open>try\<close> block. Its constants are those of \<open>try_scope\<close> and end with the block. The
  awaited timer always fires, so nothing is thrown after the button was found; a form
  without a submit button throws on the read of \<open>textContent\<close>.
\<close>

definition submit_try :: "contact_page \<Rightarrow> error option \<times> contact_page" where
  "submit_try p =
     (case submitBtn p of
        None \<Rightarrow> (Some (TypeError ''submitBtn is null''), p)
      | Some b \<Rightarrow>
          let p1 = p\<lparr>submitBtn := Some (b\<lparr>disabled := True, textContent := ''Sending...''\<rparr>)\<rparr>;
              p2 = showSuccessMessage ''Message sent successfully! We'll be in touch soon.'' p1;
              p3 = reset p2;
              p4 = logEvent ''form_submission'' p3
          in (None, p4))"

definition submit_catch :: "error \<Rightarrow> contact_page \<Rightarrow> contact_page" where
  "submit_catch e p =
     (let p1 = p\<lparr>console := console p @ [''Form submission error:'']\<rparr>;
          p2 = showErrorMessage ''An error occurred. Please try again later.'' p1
      in logEvent ''form_error'' p2)"

text \<open>
  The \<open>finally\<close> block: it finds the button again, enables it, and then reads
  \<open>originalText\<close>, which is resolved in the scopes of this block.
\<close>

definition submit_finally :: "contact_page \<Rightarrow> error option \<times> contact_page" where
  "submit_finally p =
     (case submitBtn p of
        None \<Rightarrow> (Some (TypeError ''submitBtn is null''), p)
      | Some b \<Rightarrow>
          let p1 = p\<lparr>submitBtn := Some (b\<lparr>disabled := False\<rparr>)\<rparr>
          in (case resolve [finally_scope, function_scope, module_scope, global_scope] ''originalText'' of
                Inl e \<Rightarrow> (Some e, p1)
              | Inr (StringValue s) \<Rightarrow> (None, p1\<lparr>submitBtn := Some (b\<lparr>disabled := False, textContent := s\<rparr>)\<rparr>)
              | Inr OtherValue \<Rightarrow>
                  (None, p1\<lparr>submitBtn := Some (b\<lparr>disabled := False, textContent := ''[object Object]''\<rparr>)\<rparr>)))"

text \<open>
  \<open>handleFormSubmit\<close>: the result is \<open>Inl\<close> when the returned promise is rejected. An
  exception of the \<open>try\<close> block is handled by \<open>catch\<close>; one of the \<open>finally\<close> block leaves
  the function.
\<close>

definition handleFormSubmit :: "contact_page \<Rightarrow> (error + unit) \<times> contact_page" where
  "handleFormSubmit p =
     (let (valid, p1) = validateForm p in
      if \<not> valid then (Inr (), p1)
      else
        let (thrown, p2) = submit_try p1;
            p3 = (case thrown of None \<Rightarrow> p2 | Some e \<Rightarrow> submit_catch e p2);
            (thrown', p4) = submit_finally p3
        in (case thrown' of None \<Rightarrow> (Inr (), p4) | Some e \<Rightarrow> (Inl e, p4)))"

subsection \<open>The validation rules in the words of the specification\<close>

text \<open>
  Name: required, that is non-empty after trimming. Email: required, and it must match
  the pattern. Message: required, and at least 10 characters after trimming.
\<close>

definition name_ok :: "string \<Rightarrow> bool" where
  "name_ok v = (trim v \<noteq> [])"

definition email_ok :: "string \<Rightarrow> bool" where
  "email_ok v = (trim v \<noteq> [] \<and> regex_test emailRegex v)"

definition message_ok :: "string \<Rightarrow> bool" where
  "message_ok v = (trim v \<noteq> [] \<and> 10 \<le> length (trim v))"

text \<open>Validation accepts the email of a page when it leaves no error on the email input.\<close>

definition email_accepted :: "contact_page \<Rightarrow> bool" where
  "email_accepted p = (EmailInput \<notin> set (map fst (fieldErrors (snd (validateForm p)))))"

text \<open>
  The pattern as claim C4 words it: the three parts are made of non-space characters,
  with no condition on \<open>@\<close>.
\<close>

definition claimedPattern :: regex where
  "claimedPattern =
     [(NoneOf [Whitespace], Plus), (Lit (CHR ''@''), Once),
      (NoneOf [Whitespace], Plus), (Lit (CHR ''.''), Once),
      (NoneOf [Whitespace], Plus)]"

subsection \<open>Sample submissions\<close>

definition valid_submission :: contact_page where
  "valid_submission =
     \<lparr>nameInput = \<lparr>input_value = ''Jane Doe'', defaultValue = [], field_classes = []\<rparr>,
      emailInput = \<lparr>input_value = ''jane@example.com'', defaultValue = [], field_classes = []\<rparr>,
      messageInput = \<lparr>input_value = ''Hello, I'd like to book a session.'', defaultValue = [],
                      field_classes = []\<rparr>,
      fieldErrors = [],
      submitBtn = Some \<lparr>disabled = False, textContent = ''Send Message''\<rparr>,
      alerts = [],
      console = []\<rparr>"

definition invalid_submission :: contact_page where
  "invalid_submission =
     \<lparr>nameInput = \<lparr>input_value = [], defaultValue = [], field_classes = []\<rparr>,
      emailInput = \<lparr>input_value = ''not-an-email'', defaultValue = [], field_classes = []\<rparr>,
      messageInput = \<lparr>input_value = ''Hello'', defaultValue = [], field_classes = []\<rparr>,
      fieldErrors = [],
      submitBtn = Some \<lparr>disabled = False, textContent = ''Send Message''\<rparr>,
      alerts = [],
      console = []\<rparr>"

definition two_at_submission :: contact_page where
  "two_at_submission =
     valid_submission\<lparr>emailInput := \<lparr>input_value = ''a@b@c.d'', defaultValue = [], field_classes = []\<rparr>\<rparr>"

section \<open>Content loader (contentLoader.js)\<close>

subsection \<open>Content documents as JavaScript values\<close>

text \<open>
  A content document is what \<open>JSON.parse\<close> returns: \<open>null\<close>, a boolean, a number, a
  string, an array or an object; reading a property that is not there gives
  \<open>undefined\<close>. A number is kept as the text that JavaScript prints for it, so zero is
  the number whose text is \<open>0\<close>. An object is the list of its members in the order of the
  JSON text; when a key occurs twice the last one counts.
\<close>

datatype jsval =
    JUndefined
  | JNull
  | JBool bool
  | JNum string
  | JStr string
  | JArr "jsval list"
  | JObj "(string \<times> jsval) list"

fun truthy :: "jsval \<Rightarrow> bool" where
  "truthy JUndefined = False"
| "truthy JNull = False"
| "truthy (JBool b) = b"
| "truthy (JNum n) = (n \<noteq> ''0'')"
| "truthy (JStr s) = (s \<noteq> [])"
| "truthy (JArr xs) = True"
| "truthy (JObj kvs) = True"

text \<open>\<open>a || b\<close>\<close>

definition or_else :: "jsval \<Rightarrow> jsval \<Rightarrow> jsval" where
  "or_else a b = (if truthy a then a else b)"

definition own_property :: "(string \<times> jsval) list \<Rightarrow> string \<Rightarrow> jsval" where
  "own_property kvs k = (case map_of (rev kvs) k of None \<Rightarrow> JUndefined | Some v \<Rightarrow> v)"

text \<open>
  Reading a property \<open>v.k\<close>, for the property names the loader reads (\<open>title\<close>, \<open>items\<close>,
  \<open>render\<close>, ...): it throws on \<open>undefined\<close> and \<open>null\<close>, looks the key up in an object,
  and gives \<open>undefined\<close> on a boolean, a number, a string or an array, which have no
  property of these names (\<open>link\<close>, a method of strings, is read only from a value whose
  \<open>text\<close> is truthy, and no string has a property \<open>text\<close>).
\<close>

fun get :: "jsval \<Rightarrow> string \<Rightarrow> error + jsval" where
  "get JUndefined k = Inl (TypeError (''Cannot read properties of undefined (reading '' @ k @ '')''))"
| "get JNull k = Inl (TypeError (''Cannot read properties of null (reading '' @ k @ '')''))"
| "get (JObj kvs) k = Inr (own_property kvs k)"
| "get v k = Inr JUndefined"

definition and_then :: "error + 'a \<Rightarrow> ('a \<Rightarrow> error + 'b) \<Rightarrow> error + 'b" where
  "and_then m f = (case m of Inl e \<Rightarrow> Inl e | Inr x \<Rightarrow> f x)"

text \<open>
  Conversion to a string, as a template literal and the setter of \<open>textContent\<close> do it.
  An object is converted through its \<open>toString\<close> method: a document object inherits the
  one that answers \<open>[object Object]\<close>, unless it has a member named \<open>toString\<close> of its own,
  which is no function, and then the conversion throws. An array joins the
  conversions of its elements with commas, \<open>null\<close> giving the empty string there, and
  throws when one of them throws.
\<close>

fun join :: "string \<Rightarrow> string list \<Rightarrow> string" where
  "join sep [] = []"
| "join sep [x] = x"
| "join sep (x # y # ys) = x @ sep @ join sep (y # ys)"

fun to_string :: "jsval \<Rightarrow> error + string"
  and to_strings :: "jsval list \<Rightarrow> error + string list" where
  "to_string JUndefined = Inr ''undefined''"
| "to_string JNull = Inr ''null''"
| "to_string (JBool b) = Inr (if b then ''true'' else ''false'')"
| "to_string (JNum n) = Inr n"
| "to_string (JStr s) = Inr s"
| "to_string (JArr xs) = (case to_strings xs of Inl e \<Rightarrow> Inl e | Inr ss \<Rightarrow> Inr (join '','' ss))"
| "to_string (JObj kvs) =
     (if ''toString'' \<in> set (map fst kvs)
      then Inl (TypeError ''Cannot convert object to primitive value'')
      else Inr ''[object Object]'')"
| "to_strings [] = Inr []"
| "to_strings (x # xs) =
     (case (if x = JNull \<or> x = JUndefined then Inr [] else to_string x) of
        Inl e \<Rightarrow> Inl e
      | Inr s \<Rightarrow> (case to_strings xs of Inl e \<Rightarrow> Inl e | Inr ss \<Rightarrow> Inr (s # ss)))"

subsection \<open>Names in scope in the loader\<close>

text \<open>
  The scopes around the body of \<open>createCard\<close>: the parameters and variables of the
  function, the names the module declares inside its function expression, and the
  global scope, with the names the three scripts declare there and the globals of the
  browser that the scripts use. The browser has no global named \<open>formatDate\<close>.
\<close>

definition createCard_scope :: scope where
  "createCard_scope = map (\<lambda>x. (x, OtherValue)) [''item'', ''cardType'', ''card'', ''cardHTML'']"

definition loader_scope :: scope where
  "loader_scope = map (\<lambda>x. (x, OtherValue))
     [''load'', ''renderCards'', ''createCard'', ''renderText'', ''renderResources'',
      ''createResourceCard'', ''init'']"

definition page_scope :: scope where
  "page_scope = map (\<lambda>x. (x, OtherValue))
     [''ContentLoader'', ''Navigation'', ''App'', ''window'', ''document'', ''console'', ''fetch'',
      ''Object'', ''Promise'', ''Date'', ''setTimeout'']"

text \<open>
  The call \<open>formatDate(item.date)\<close> in \<open>createCard\<close>. The name is resolved first; no scope
  declares it, so the second case does not arise.
\<close>

definition formatDate :: "jsval \<Rightarrow> error + string" where
  "formatDate date =
     (case resolve [createCard_scope, loader_scope, page_scope] ''formatDate'' of
        Inl e \<Rightarrow> Inl e
      | Inr f \<Rightarrow> Inl (TypeError ''formatDate is not a function''))"

subsection \<open>Cards\<close>

text \<open>
  A card is a \<open>div\<close> element that is not yet in the page, with its class name and the
  string assigned to its \<open>innerHTML\<close>. \<open>createCard\<close> builds that string piece by piece as
  the source does; the template of the date block spans three lines, whose line
  breaks and indentation belong to the string. It throws where the source does: on an
  item that is \<open>null\<close>, on a value whose conversion to a string throws, on the call of
  \<open>formatDate\<close>, and on tags that are truthy and not an array (no \<open>forEach\<close>).
\<close>

record element =
  className :: string
  innerHTML :: string

definition date_block_open :: string where
  \<open>date_block_open =
     ''<div class="blog-card-meta">'' @ CHR 0x0A # replicate 28 (CHR '' '')
     @ ''<span class="blog-card-date">''\<close>

definition date_block_close :: string where
  \<open>date_block_close = ''</span>'' @ CHR 0x0A # replicate 24 (CHR '' '') @ ''</div>''\<close>

definition badge_open :: string where
  \<open>badge_open = ''<span class="badge badge-primary">''\<close>

text \<open>The loop over the tags: each tag appends its badge and a space.\<close>

fun appendTags :: "jsval list \<Rightarrow> string \<Rightarrow> error + string" where
  "appendTags [] cardHTML = Inr cardHTML"
| "appendTags (tag # tags) cardHTML =
     (case to_string tag of
        Inl e \<Rightarrow> Inl e
      | Inr t \<Rightarrow> appendTags tags (cardHTML @ badge_open @ t @ ''</span> ''))"

definition createCard :: "jsval \<Rightarrow> string \<Rightarrow> error + element" where
  \<open>createCard item cardType =
     and_then (get item ''title'') (\<lambda>title.
     and_then (to_string (or_else title (JStr []))) (\<lambda>titleText.
     let cardHTML = ''<h3>'' @ titleText @ ''</h3>'' in
     and_then (get item ''description'') (\<lambda>description.
     and_then (if truthy description
               then and_then (to_string description) (\<lambda>d. Inr (cardHTML @ ''<p>'' @ d @ ''</p>''))
               else Inr cardHTML) (\<lambda>cardHTML.
     and_then (if cardType = ''blog'' then get item ''date'' else Inr (JBool False)) (\<lambda>dated.
     and_then (if truthy dated
               then and_then (get item ''date'') (\<lambda>date.
                    and_then (formatDate date) (\<lambda>d.
                      Inr (date_block_open @ d @ date_block_close @ cardHTML)))
               else Inr cardHTML) (\<lambda>cardHTML.
     and_then (get item ''tags'') (\<lambda>tags.
     and_then (if truthy tags
               then (case tags of
                       JArr ts \<Rightarrow>
                         and_then (appendTags ts (cardHTML @ ''<div class="card-tags">'')) (\<lambda>h.
                           Inr (h @ ''</div>''))
                     | _ \<Rightarrow> Inl (TypeError ''item.tags.forEach is not a function''))
               else Inr cardHTML) (\<lambda>cardHTML.
     and_then (get item ''cta'') (\<lambda>cta.
     and_then (if truthy cta then get cta ''text'' else Inr cta) (\<lambda>text.
     and_then (if truthy text
               then and_then (get cta ''link'') (\<lambda>link.
                    and_then (to_string (or_else link (JStr ''#''))) (\<lambda>href.
                    and_then (to_string text) (\<lambda>label.
                      Inr (cardHTML @ ''<a href="'' @ href @ ''" class="btn btn-primary">'' @ label
                           @ ''</a>''))))
               else Inr cardHTML) (\<lambda>cardHTML.
     Inr \<lparr>className = ''card '' @ cardType @ ''-card'', innerHTML = cardHTML\<rparr>)))))))))))\<close>

text \<open>
  The four characters in front of the download label. In the source text they are
  U+00F0, U+0178, U+201C and U+00A5, which is how the four bytes F0 9F 93 A5 of the
  download icon read in the Windows-1252 encoding; a character has eight bits here,
  and the list keeps those four bytes.
\<close>

definition download_icon :: string where
  "download_icon = [CHR 0xF0, CHR 0x9F, CHR 0x93, CHR 0xA5]"

definition createResourceCard :: "jsval \<Rightarrow> error + element" where
  \<open>createResourceCard item =
     and_then (get item ''title'') (\<lambda>title.
     and_then (to_string (or_else title (JStr []))) (\<lambda>titleText.
     let cardHTML = ''<h3>'' @ titleText @ ''</h3>'' in
     and_then (get item ''description'') (\<lambda>description.
     and_then (if truthy description
               then and_then (to_string description) (\<lambda>d. Inr (cardHTML @ ''<p>'' @ d @ ''</p>''))
               else Inr cardHTML) (\<lambda>cardHTML.
     and_then (get item ''type'') (\<lambda>type.
     and_then (if truthy type
               then and_then (to_string type) (\<lambda>t. Inr (cardHTML @ badge_open @ t @ ''</span>''))
               else Inr cardHTML) (\<lambda>cardHTML.
     and_then (get item ''download'') (\<lambda>download.
     and_then (if truthy download
               then and_then (get download ''url'') (\<lambda>url.
                    and_then (to_string url) (\<lambda>href.
                    and_then (get download ''filename'') (\<lambda>filename.
                    and_then (to_string (or_else filename (JStr []))) (\<lambda>name.
                    and_then (to_string (or_else filename (JStr ''File''))) (\<lambda>label.
                      Inr (cardHTML @ ''<a href="'' @ href @ ''" class="btn btn-primary" download="''
                           @ name @ ''" target="_blank">''
                           @ CHR 0x0A # replicate 28 (CHR '' '') @ download_icon @ '' Download '' @ label
                           @ CHR 0x0A # replicate 24 (CHR '' '') @ ''</a>''))))))
               else Inr cardHTML) (\<lambda>cardHTML.
     Inr \<lparr>className = ''card resource-card'', innerHTML = cardHTML\<rparr>))))))))\<close>

subsection \<open>The page\<close>

text \<open>
  The page as the loader sees it: the elements that carry an \<open>id\<close>, each with its
  children; the \<open>data-section\<close> values of the links \<open>a[data-section]\<close> and those of the
  elements \<open>.nav-spacer[data-section]\<close>, in document order. Ids are unique, and the
  nesting of the elements in each other is not represented. \<open>querySelector\<close> resolves
  the id selectors \<open>#name\<close>, the only ones the loader passes for a container; the
  element found is named by its id. A child is a card that was appended, a text
  node, or \<open>Markup s\<close>: the nodes the parser makes of a string \<open>s\<close> assigned to \<open>innerHTML\<close>,
  which are not computed here.
\<close>

datatype node = Markup string | TextNode string | Child element

record page =
  elements :: "string \<rightharpoonup> node list"
  linkTargets :: "string list"
  spacerTargets :: "string list"

definition querySelector :: "page \<Rightarrow> string \<Rightarrow> string option" where
  "querySelector pg selector =
     (case selector of
        [] \<Rightarrow> None
      | c # i \<Rightarrow> if c = CHR ''#'' \<and> elements pg i \<noteq> None then Some i else None)"

definition set_innerHTML :: "string \<Rightarrow> string \<Rightarrow> page \<Rightarrow> page" where
  "set_innerHTML i markup pg =
     pg\<lparr>elements := (elements pg)(i \<mapsto> (if markup = [] then [] else [Markup markup]))\<rparr>"

definition set_textContent :: "string \<Rightarrow> string \<Rightarrow> page \<Rightarrow> page" where
  "set_textContent i s pg = pg\<lparr>elements := (elements pg)(i \<mapsto> (if s = [] then [] else [TextNode s]))\<rparr>"

definition appendChild :: "string \<Rightarrow> element \<Rightarrow> page \<Rightarrow> page" where
  "appendChild i child pg =
     pg\<lparr>elements := (elements pg)(i \<mapsto> (case elements pg i of None \<Rightarrow> [] | Some cs \<Rightarrow> cs) @ [Child child])\<rparr>"

text \<open>\<open>container.remove()\<close>, and the removal of the first link or spacer of a section.\<close>

definition remove_element :: "string \<Rightarrow> page \<Rightarrow> page" where
  "remove_element i pg = pg\<lparr>elements := (elements pg)(i := None)\<rparr>"

definition remove_navLink :: "string \<Rightarrow> page \<Rightarrow> page" where
  "remove_navLink i pg = pg\<lparr>linkTargets := remove1 i (linkTargets pg)\<rparr>"

definition remove_navSpacer :: "string \<Rightarrow> page \<Rightarrow> page" where
  "remove_navSpacer i pg = pg\<lparr>spacerTargets := remove1 i (spacerTargets pg)\<rparr>"

subsection \<open>Rendering\<close>

text \<open>
  A rendering function returns the exception it throws, if any, and the page as it is
  then. The loop of \<open>forEach\<close> stops at the first item whose card throws; the cards
  appended before stay. \<open>renderCards\<close> takes the card kind as its caller passes it; the
  default \<open>card\<close> of the source stands for a kind that is not passed.
\<close>

fun appendCards :: "jsval list \<Rightarrow> string \<Rightarrow> string \<Rightarrow> page \<Rightarrow> error option \<times> page" where
  "appendCards [] cardType container pg = (None, pg)"
| "appendCards (item # items) cardType container pg =
     (case createCard item cardType of
        Inl e \<Rightarrow> (Some e, pg)
      | Inr cardEl \<Rightarrow> appendCards items cardType container (appendChild container cardEl pg))"

definition renderCards :: "jsval \<Rightarrow> string \<Rightarrow> string \<Rightarrow> page \<Rightarrow> error option \<times> page" where
  "renderCards items selector cardType pg =
     (case querySelector pg selector of
        None \<Rightarrow> (None, pg)
      | Some container \<Rightarrow>
          if \<not> truthy items then (None, pg)
          else
            let pg1 = set_innerHTML container [] pg in
            (case items of
               JArr xs \<Rightarrow> appendCards xs cardType container pg1
             | _ \<Rightarrow> (Some (TypeError ''items.forEach is not a function''), pg1)))"

text \<open>
  \<open>renderText\<close> builds its string first and assigns it at the end, so an exception of a
  conversion leaves the container as it was.
\<close>

definition renderText :: "jsval \<Rightarrow> string \<Rightarrow> page \<Rightarrow> error option \<times> page" where
  "renderText content selector pg =
     (case querySelector pg selector of
        None \<Rightarrow> (None, pg)
      | Some container \<Rightarrow>
          if \<not> truthy content then (None, pg)
          else
            (case and_then (get content ''title'') (\<lambda>title.
                  and_then (if truthy title
                            then and_then (to_string title) (\<lambda>t. Inr (''<h3>'' @ t @ ''</h3>''))
                            else Inr []) (\<lambda>html.
                  and_then (get content ''body'') (\<lambda>body.
                  if truthy body
                  then and_then (to_string body) (\<lambda>b. Inr (html @ ''<p>'' @ b @ ''</p>''))
                  else Inr html))) of
               Inl e \<Rightarrow> (Some e, pg)
             | Inr html \<Rightarrow> (None, set_innerHTML container html pg)))"

fun appendResources :: "jsval list \<Rightarrow> string \<Rightarrow> page \<Rightarrow> error option \<times> page" where
  "appendResources [] container pg = (None, pg)"
| "appendResources (item # items) container pg =
     (case createResourceCard item of
        Inl e \<Rightarrow> (Some e, pg)
      | Inr cardEl \<Rightarrow> appendResources items container (appendChild container cardEl pg))"

definition renderResources :: "jsval \<Rightarrow> string \<Rightarrow> page \<Rightarrow> error option \<times> page" where
  "renderResources items selector pg =
     (case querySelector pg selector of
        None \<Rightarrow> (None, pg)
      | Some container \<Rightarrow>
          if \<not> truthy items then (None, pg)
          else
            let pg1 = set_innerHTML container [] pg in
            (case items of
               JArr xs \<Rightarrow> appendResources xs container pg1
             | _ \<Rightarrow> (Some (TypeError ''items.forEach is not a function''), pg1)))"

subsection \<open>The visibility rule\<close>

text \<open>
  \<open>handleConditionalRendering\<close>: the id of the container found by \<open>#name\<close> is \<open>name\<close>.
  The condition is \<open>content && content.render === false\<close>.
\<close>

definition handleConditionalRendering :: "jsval \<Rightarrow> string \<Rightarrow> page \<Rightarrow> page" where
  "handleConditionalRendering content selector pg =
     (case querySelector pg selector of
        None \<Rightarrow> pg
      | Some container \<Rightarrow>
          if truthy content \<and> get content ''render'' = Inr (JBool False)
          then remove_navSpacer container (remove_navLink container (remove_element container pg))
          else pg)"

definition sectionsToCheck :: "(string \<times> string) list" where
  "sectionsToCheck =
     [(''about'', ''#about''), (''blog'', ''#blog-section''), (''booking'', ''#booking''),
      (''contact'', ''#contact''), (''hero'', ''#home''), (''services'', ''#services''),
      (''resources'', ''#resources'')]"

subsection \<open>Loading\<close>

text \<open>
  The outcome of \<open>fetch\<close> for a URL: the request fails, or a response arrives with its
  \<open>ok\<close> flag and a body that parses as JSON (\<open>Some\<close>) or does not (\<open>None\<close>). The server is
  a function from URLs to outcomes. The world of the loader is the page, the URLs
  fetched so far and the lines written with \<open>console.error\<close>.
\<close>

datatype fetch_result = NetworkFailure | Response bool "jsval option"

record world =
  document :: page
  fetched :: "string list"
  errors_logged :: "string list"

definition content_url :: "string \<Rightarrow> string" where
  "content_url contentType = ''content/'' @ contentType @ ''.json''"

text \<open>The body of the \<open>try\<close> block of \<open>load\<close>: \<open>fetch\<close> and \<open>response.json()\<close> may throw.\<close>

definition load_try :: "(string \<Rightarrow> fetch_result) \<Rightarrow> string \<Rightarrow> world \<Rightarrow> (error + jsval) \<times> world" where
  "load_try server contentType w =
     (let w1 = w\<lparr>fetched := fetched w @ [content_url contentType]\<rparr> in
      case server (content_url contentType) of
        NetworkFailure \<Rightarrow> (Inl (TypeError ''Failed to fetch''), w1)
      | Response ok body \<Rightarrow>
          if \<not> ok
          then (Inr JNull, w1\<lparr>errors_logged := errors_logged w1 @ [''Failed to load content: '' @ contentType]\<rparr>)
          else (case body of
                  None \<Rightarrow> (Inl (SyntaxError ''Unexpected token in JSON''), w1)
                | Some data \<Rightarrow> (Inr data, w1)))"

definition load :: "(string \<Rightarrow> fetch_result) \<Rightarrow> string \<Rightarrow> world \<Rightarrow> (error + jsval) \<times> world" where
  "load server contentType w =
     (case load_try server contentType w of
        (Inl e, w1) \<Rightarrow>
          (Inr JNull, w1\<lparr>errors_logged := errors_logged w1 @ [''Error loading content file: '' @ contentType]\<rparr>)
      | (Inr data, w1) \<Rightarrow> (Inr data, w1))"

subsection \<open>Initialisation\<close>

text \<open>
  The first pass of \<open>init\<close> starts one asynchronous callback per entry of
  \<open>sectionsToCheck\<close> and does not wait for them. One callback loads the document of
  the section and applies the visibility rule.
\<close>

definition check_section :: "(string \<Rightarrow> fetch_result) \<Rightarrow> string \<times> string \<Rightarrow> world \<Rightarrow> world" where
  "check_section server = (\<lambda>(type, selector) w.
     case load server type w of
       (Inl e, w1) \<Rightarrow> w1
     | (Inr content, w1) \<Rightarrow> w1\<lparr>document := handleConditionalRendering content selector (document w1)\<rparr>)"

text \<open>
  The second pass is the \<open>try\<close> block of \<open>init\<close>: six times a load and the rendering of what
  was loaded. While the pass waits for a load, callbacks of the first pass may run and
  change the page; \<open>others contentType\<close> is what they do to the page during the wait for
  \<open>contentType\<close>.
\<close>

definition load_then ::
  "(string \<Rightarrow> fetch_result) \<Rightarrow> (string \<Rightarrow> page \<Rightarrow> page) \<Rightarrow> string
   \<Rightarrow> (jsval \<Rightarrow> page \<Rightarrow> error option \<times> page) \<Rightarrow> world \<Rightarrow> error option \<times> world" where
  "load_then server others contentType render w =
     (case load server contentType w of
        (Inl e, w1) \<Rightarrow> (Some e, w1)
      | (Inr data, w1) \<Rightarrow>
          (case render data (others contentType (document w1)) of
             (thrown, pg) \<Rightarrow> (thrown, w1\<lparr>document := pg\<rparr>)))"

definition render_hero :: "jsval \<Rightarrow> page \<Rightarrow> error option \<times> page" where
  "render_hero heroData pg =
     (if \<not> truthy heroData then (None, pg)
      else case get heroData ''subtitle'' of
             Inl e \<Rightarrow> (Some e, pg)
           | Inr subtitle \<Rightarrow>
               if \<not> truthy subtitle then (None, pg)
               else (case querySelector pg ''#hero-subtitle'' of
                       None \<Rightarrow> (None, pg)
                     | Some subtitleEl \<Rightarrow>
                         (case to_string subtitle of
                            Inl e \<Rightarrow> (Some e, pg)
                          | Inr s \<Rightarrow> (None, set_textContent subtitleEl s pg))))"

definition render_about :: "jsval \<Rightarrow> page \<Rightarrow> error option \<times> page" where
  "render_about aboutData pg =
     (if truthy aboutData then renderText aboutData ''#about-content'' pg else (None, pg))"

definition render_services :: "jsval \<Rightarrow> page \<Rightarrow> error option \<times> page" where
  "render_services servicesData pg =
     (if \<not> truthy servicesData then (None, pg)
      else case get servicesData ''items'' of
             Inl e \<Rightarrow> (Some e, pg)
           | Inr items \<Rightarrow>
               if truthy items then renderCards items ''#services-grid'' ''service'' pg else (None, pg))"

definition render_resources :: "jsval \<Rightarrow> page \<Rightarrow> error option \<times> page" where
  "render_resources resourcesData pg =
     (if \<not> truthy resourcesData then (None, pg)
      else case get resourcesData ''intro'' of
             Inl e \<Rightarrow> (Some e, pg)
           | Inr intro \<Rightarrow>
               (case (if truthy intro then renderText intro ''#resources-intro'' pg else (None, pg)) of
                  (Some e, pg1) \<Rightarrow> (Some e, pg1)
                | (None, pg1) \<Rightarrow>
                    (case get resourcesData ''items'' of
                       Inl e \<Rightarrow> (Some e, pg1)
                     | Inr items \<Rightarrow>
                         if truthy items then renderResources items ''#resources-grid'' pg1
                         else (None, pg1))))"

definition render_booking :: "jsval \<Rightarrow> page \<Rightarrow> error option \<times> page" where
  "render_booking bookingData pg =
     (if truthy bookingData then renderText bookingData ''#booking-content'' pg else (None, pg))"

definition render_contact :: "jsval \<Rightarrow> page \<Rightarrow> error option \<times> page" where
  "render_contact contactData pg =
     (if truthy contactData then renderText contactData ''#contact-content'' pg else (None, pg))"

text \<open>Statements in sequence inside one \<open>try\<close>: the first exception ends the sequence.\<close>

fun try_steps :: "(world \<Rightarrow> error option \<times> world) list \<Rightarrow> world \<Rightarrow> error option \<times> world" where
  "try_steps [] w = (None, w)"
| "try_steps (step # steps) w =
     (case step w of
        (Some e, w1) \<Rightarrow> (Some e, w1)
      | (None, w1) \<Rightarrow> try_steps steps w1)"

definition second_pass_sections :: "(string \<times> (jsval \<Rightarrow> page \<Rightarrow> error option \<times> page)) list" where
  "second_pass_sections =
     [(''hero'', render_hero), (''about'', render_about), (''services'', render_services),
      (''resources'', render_resources), (''booking'', render_booking), (''contact'', render_contact)]"

definition second_pass ::
  "(string \<Rightarrow> fetch_result) \<Rightarrow> (string \<Rightarrow> page \<Rightarrow> page) \<Rightarrow> (world \<Rightarrow> error option \<times> world) list" where
  "second_pass server others =
     map (\<lambda>(contentType, render). load_then server others contentType render) second_pass_sections"

text \<open>
  \<open>init\<close>, from the start of its \<open>try\<close> block: the second pass, and the \<open>catch\<close> that logs
  an exception. The function itself never throws.
\<close>

definition ContentLoader_init ::
  "(string \<Rightarrow> fetch_result) \<Rightarrow> (string \<Rightarrow> page \<Rightarrow> page) \<Rightarrow> world \<Rightarrow> world" where
  "ContentLoader_init server others w =
     (case try_steps (second_pass server others) w of
        (None, w1) \<Rightarrow> w1
      | (Some e, w1) \<Rightarrow> w1\<lparr>errors_logged := errors_logged w1 @ [''Error initializing content loader:'']\<rparr>)"


subsection \<open>Well-formed documents\<close>

text \<open>
  The data model of the specification: a card has a title, an optional description,
  an optional date, an optional sequence of tag strings and an optional
  call-to-action with a label and a target. A field is optional when it may be
  absent.
\<close>

definition is_string :: "jsval \<Rightarrow> bool" where
  "is_string v = (case v of JStr s \<Rightarrow> True | _ \<Rightarrow> False)"

definition optional :: "(jsval \<Rightarrow> bool) \<Rightarrow> jsval \<Rightarrow> bool" where
  "optional P v = (v = JUndefined \<or> P v)"

definition is_string_array :: "jsval \<Rightarrow> bool" where
  "is_string_array v = (case v of JArr xs \<Rightarrow> list_all is_string xs | _ \<Rightarrow> False)"

definition is_cta :: "jsval \<Rightarrow> bool" where
  "is_cta v =
     (case v of
        JObj kvs \<Rightarrow> optional is_string (own_property kvs ''text'')
                    \<and> optional is_string (own_property kvs ''link'')
      | _ \<Rightarrow> False)"

definition card_item :: "jsval \<Rightarrow> bool" where
  "card_item item =
     (case item of
        JObj kvs \<Rightarrow>
          optional is_string (own_property kvs ''title'')
          \<and> optional is_string (own_property kvs ''description'')
          \<and> optional is_string (own_property kvs ''date'')
          \<and> optional is_string_array (own_property kvs ''tags'')
          \<and> optional is_cta (own_property kvs ''cta'')
      | _ \<Rightarrow> False)"

text \<open>
  A hero document has an optional subtitle string, a text document an optional title
  and an optional body string. A card collection document is an object whose \<open>items\<close>,
  when present, is a sequence of cards. A resource record has optional strings
  \<open>title\<close>, \<open>description\<close> and \<open>type\<close> and an optional \<open>download\<close> with a string \<open>url\<close> and an
  optional string \<open>filename\<close>; a resource document has an optional \<open>intro\<close>, which is a text document,
  and optional \<open>items\<close>, a sequence of resource records.
\<close>

definition hero_document :: "jsval \<Rightarrow> bool" where
  "hero_document d =
     (case d of JObj kvs \<Rightarrow> optional is_string (own_property kvs ''subtitle'') | _ \<Rightarrow> False)"

definition text_document :: "jsval \<Rightarrow> bool" where
  "text_document d =
     (case d of
        JObj kvs \<Rightarrow> optional is_string (own_property kvs ''title'')
                    \<and> optional is_string (own_property kvs ''body'')
      | _ \<Rightarrow> False)"

definition is_card_array :: "jsval \<Rightarrow> bool" where
  "is_card_array v = (case v of JArr xs \<Rightarrow> list_all card_item xs | _ \<Rightarrow> False)"

definition card_document :: "jsval \<Rightarrow> bool" where
  "card_document d = (case d of JObj kvs \<Rightarrow> optional is_card_array (own_property kvs ''items'') | _ \<Rightarrow> False)"

definition is_download :: "jsval \<Rightarrow> bool" where
  "is_download v =
     (case v of
        JObj kvs \<Rightarrow> is_string (own_property kvs ''url'')
                    \<and> optional is_string (own_property kvs ''filename'')
      | _ \<Rightarrow> False)"

definition resource_item :: "jsval \<Rightarrow> bool" where
  "resource_item item =
     (case item of
        JObj kvs \<Rightarrow>
          optional is_string (own_property kvs ''title'')
          \<and> optional is_string (own_property kvs ''description'')
          \<and> optional is_string (own_property kvs ''type'')
          \<and> optional is_download (own_property kvs ''download'')
      | _ \<Rightarrow> False)"

definition is_resource_array :: "jsval \<Rightarrow> bool" where
  "is_resource_array v = (case v of JArr xs \<Rightarrow> list_all resource_item xs | _ \<Rightarrow> False)"

definition resource_document :: "jsval \<Rightarrow> bool" where
  "resource_document d =
     (case d of
        JObj kvs \<Rightarrow> optional text_document (own_property kvs ''intro'')
                    \<and> optional is_resource_array (own_property kvs ''items'')
      | _ \<Rightarrow> False)"

text \<open>
  The document of a section of the second pass is well formed when it has the form
  that goes with the section; \<open>null\<close>, which a failed load gives, is not a document.
\<close>

definition well_formed :: "string \<Rightarrow> jsval \<Rightarrow> bool" where
  "well_formed contentType d =
     (if contentType = ''hero'' then hero_document d
      else if contentType = ''services'' then card_document d
      else if contentType = ''resources'' then resource_document d
      else text_document d)"

text \<open>What \<open>load\<close> returns for a content type: the document, or \<open>null\<close>.\<close>

definition loaded :: "(string \<Rightarrow> fetch_result) \<Rightarrow> string \<Rightarrow> jsval" where
  "loaded server contentType =
     (case server (content_url contentType) of
        NetworkFailure \<Rightarrow> JNull
      | Response ok body \<Rightarrow> (if ok then (case body of None \<Rightarrow> JNull | Some data \<Rightarrow> data) else JNull))"

subsection \<open>The words of the claims about documents and cards\<close>

text \<open>The document has its \<open>render\<close> field explicitly equal to \<open>false\<close>.\<close>

definition render_is_false :: "jsval \<Rightarrow> bool" where
  "render_is_false content =
     (case content of JObj kvs \<Rightarrow> own_property kvs ''render'' = JBool False | _ \<Rightarrow> False)"

text \<open>
  A field of a record, \<open>undefined\<close> when it is absent, and the text of a string field,
  empty when the field is absent. The item has a date: its \<open>date\<close> field is there and is
  not empty.
\<close>

definition field_of :: "jsval \<Rightarrow> string \<Rightarrow> jsval" where
  "field_of item k = (case item of JObj kvs \<Rightarrow> own_property kvs k | _ \<Rightarrow> JUndefined)"

definition text_of :: "jsval \<Rightarrow> string" where
  "text_of v = (case v of JStr s \<Rightarrow> s | _ \<Rightarrow> [])"

definition has_date :: "jsval \<Rightarrow> bool" where
  "has_date item = (text_of (field_of item ''date'') \<noteq> [])"

text \<open>
  The markup of a card in the words of the specification: the title as a heading; the
  description as a paragraph, if present; one row with a badge for each tag, if the
  item has tags; the action link with the label of the call-to-action, leading to its
  target or to \<open>#\<close>, if the item has a call-to-action with a label.
\<close>

definition title_markup :: "jsval \<Rightarrow> string" where
  "title_markup item = ''<h3>'' @ text_of (field_of item ''title'') @ ''</h3>''"

definition description_markup :: "jsval \<Rightarrow> string" where
  "description_markup item =
     (if text_of (field_of item ''description'') = [] then []
      else ''<p>'' @ text_of (field_of item ''description'') @ ''</p>'')"

definition tag_badge :: "jsval \<Rightarrow> string" where
  \<open>tag_badge tag = ''<span class="badge badge-primary">'' @ text_of tag @ ''</span> ''\<close>

definition tag_row :: "jsval \<Rightarrow> string" where
  \<open>tag_row item =
     (case field_of item ''tags'' of
        JArr tags \<Rightarrow> ''<div class="card-tags">'' @ concat (map tag_badge tags) @ ''</div>''
      | _ \<Rightarrow> [])\<close>

definition action_link :: "jsval \<Rightarrow> string" where
  \<open>action_link item =
     (if text_of (field_of (field_of item ''cta'') ''text'') = [] then []
      else ''<a href="''
           @ (if text_of (field_of (field_of item ''cta'') ''link'') = [] then ''#''
              else text_of (field_of (field_of item ''cta'') ''link''))
           @ ''" class="btn btn-primary">'' @ text_of (field_of (field_of item ''cta'') ''text'') @ ''</a>'')\<close>

definition card_markup :: "jsval \<Rightarrow> string" where
  "card_markup item = title_markup item @ description_markup item @ tag_row item @ action_link item"

text \<open>
  The markup of a text section: the title as a heading and the body as a paragraph,
  each if present. Showing a text document in a container replaces what the
  container holds by this markup, when the container exists.
\<close>

definition text_markup :: "jsval \<Rightarrow> string" where
  "text_markup d =
     (if text_of (field_of d ''title'') = [] then [] else ''<h3>'' @ text_of (field_of d ''title'') @ ''</h3>'')
     @ (if text_of (field_of d ''body'') = [] then [] else ''<p>'' @ text_of (field_of d ''body'') @ ''</p>'')"

definition show_text :: "jsval \<Rightarrow> string \<Rightarrow> page \<Rightarrow> page" where
  "show_text d container pg =
     (if elements pg container = None then pg
      else pg\<lparr>elements := (elements pg)
             (container \<mapsto> (if text_markup d = [] then [] else [Markup (text_markup d)]))\<rparr>)"

text \<open>
  Showing a hero document puts its subtitle, if it has one, as the text of the element
  \<open>hero-subtitle\<close>, when that element exists.
\<close>

definition show_subtitle :: "jsval \<Rightarrow> page \<Rightarrow> page" where
  "show_subtitle d pg =
     (if text_of (field_of d ''subtitle'') = [] \<or> elements pg ''hero-subtitle'' = None then pg
      else pg\<lparr>elements := (elements pg)
             (''hero-subtitle'' \<mapsto> [TextNode (text_of (field_of d ''subtitle''))])\<rparr>)"

text \<open>
  The markup of a resource card: the title, the description if present, a badge with
  the type if present, and the download link if the record has a download, labelled
  with the file name or with \<open>File\<close>.
\<close>

definition type_badge :: "jsval \<Rightarrow> string" where
  \<open>type_badge item =
     (if text_of (field_of item ''type'') = [] then []
      else ''<span class="badge badge-primary">'' @ text_of (field_of item ''type'') @ ''</span>'')\<close>

definition download_link :: "jsval \<Rightarrow> string" where
  \<open>download_link item =
     (case field_of item ''download'' of
        JObj download \<Rightarrow>
          ''<a href="'' @ text_of (own_property download ''url'')
          @ ''" class="btn btn-primary" download="'' @ text_of (own_property download ''filename'')
          @ ''" target="_blank">''
          @ CHR 0x0A # replicate 28 (CHR '' '') @ download_icon @ '' Download ''
          @ (if text_of (own_property download ''filename'') = [] then ''File''
             else text_of (own_property download ''filename''))
          @ CHR 0x0A # replicate 24 (CHR '' '') @ ''</a>''
      | _ \<Rightarrow> [])\<close>

definition resource_markup :: "jsval \<Rightarrow> string" where
  "resource_markup item = title_markup item @ description_markup item @ type_badge item @ download_link item"

text \<open>
  Showing a card collection document replaces what the container \<open>services-grid\<close> holds
  by one card of kind \<open>service\<close> for each item, in their order, when the document has
  items and the container exists. Showing a resource document shows its intro, if it
  has one, in the container \<open>resources-intro\<close>, and then replaces what the container
  \<open>resources-grid\<close> holds by one resource card for each item.
\<close>

definition show_cards :: "jsval \<Rightarrow> page \<Rightarrow> page" where
  "show_cards d pg =
     (case field_of d ''items'' of
        JArr xs \<Rightarrow>
          if elements pg ''services-grid'' = None then pg
          else pg\<lparr>elements := (elements pg)
                 (''services-grid'' \<mapsto>
                    map (\<lambda>x. Child \<lparr>className = ''card service-card'', innerHTML = card_markup x\<rparr>) xs)\<rparr>
      | _ \<Rightarrow> pg)"

definition show_resources :: "jsval \<Rightarrow> page \<Rightarrow> page" where
  "show_resources d pg =
     (let pg1 = (if field_of d ''intro'' = JUndefined then pg
                 else show_text (field_of d ''intro'') ''resources-intro'' pg)
      in case field_of d ''items'' of
           JArr xs \<Rightarrow>
             if elements pg1 ''resources-grid'' = None then pg1
             else pg1\<lparr>elements := (elements pg1)
                    (''resources-grid'' \<mapsto>
                       map (\<lambda>x. Child \<lparr>className = ''card resource-card'',
                                       innerHTML = resource_markup x\<rparr>) xs)\<rparr>
         | _ \<Rightarrow> pg1)"

text \<open>
  What the second pass shows of the document loaded for a content type: nothing when
  the load gave \<open>null\<close>.
\<close>

definition shown :: "string \<Rightarrow> jsval \<Rightarrow> page \<Rightarrow> page" where
  "shown contentType d pg =
     (if d = JNull then pg
      else if contentType = ''hero'' then show_subtitle d pg
      else if contentType = ''about'' then show_text d ''about-content'' pg
      else if contentType = ''services'' then show_cards d pg
      else if contentType = ''resources'' then show_resources d pg
      else if contentType = ''booking'' then show_text d ''booking-content'' pg
      else show_text d ''contact-content'' pg)"

text \<open>The six content types of the second pass, in its order.\<close>

definition second_pass_types :: "string list" where
  "second_pass_types = [''hero'', ''about'', ''services'', ''resources'', ''booking'', ''contact'']"

subsection \<open>Sample content\<close>

text \<open>
  The blog post of the schema documentation, a service without tags and
  call-to-action, a service of the same kind whose description holds the markup of a
  badge and of a link, a page with the containers the loader addresses, and servers.
\<close>

definition anxiety_post :: jsval where
  "anxiety_post =
     JObj [(''title'', JStr ''Understanding Anxiety''),
           (''description'', JStr ''Anxiety is a normal emotion...''),
           (''date'', JStr ''2026-01-15''),
           (''tags'', JArr [JStr ''Mental Health'', JStr ''Anxiety'']),
           (''cta'', JObj [(''text'', JStr ''Read Full Article''),
                          (''link'', JStr ''/blog/understanding-anxiety'')])]"

definition plain_service :: jsval where
  "plain_service =
     JObj [(''title'', JStr ''Individual Therapy''),
           (''description'', JStr ''One-on-one therapy sessions...'')]"

definition markup_service :: jsval where
  \<open>markup_service =
     JObj [(''title'', JStr ''Group Therapy''),
           (''description'',
            JStr ''<span class="badge badge-primary">New</span><a href="#contact" class="btn btn-primary">Join</a>'')]\<close>

definition sample_page :: page where
  "sample_page =
     \<lparr>elements = [''home'' \<mapsto> [], ''hero-subtitle'' \<mapsto> [], ''about'' \<mapsto> [], ''about-content'' \<mapsto> [],
                   ''services'' \<mapsto> [], ''services-grid'' \<mapsto> [TextNode ''Loading...''],
                   ''resources'' \<mapsto> [], ''resources-intro'' \<mapsto> [], ''resources-grid'' \<mapsto> [],
                   ''booking'' \<mapsto> [], ''booking-content'' \<mapsto> [],
                   ''contact'' \<mapsto> [], ''contact-content'' \<mapsto> []],
      linkTargets = [''home'', ''about'', ''services'', ''resources'', ''booking'', ''contact''],
      spacerTargets = [''resources'']\<rparr>"

text \<open>The same page with a container for blog cards.\<close>

definition blog_page :: page where
  "blog_page = sample_page\<lparr>elements := (elements sample_page)(''blog-grid'' \<mapsto> [TextNode ''Loading...''])\<rparr>"

definition sample_world :: world where
  "sample_world = \<lparr>document = sample_page, fetched = [], errors_logged = []\<rparr>"

text \<open>
  A server with a hero and a services document, an about document that is not JSON, a
  blog document that is not found, and no answer for anything else.
\<close>

definition sample_server :: "string \<Rightarrow> fetch_result" where
  "sample_server url =
     (if url = ''content/hero.json'' then Response True (Some (JObj [(''subtitle'', JStr ''Welcome'')]))
      else if url = ''content/about.json'' then Response True None
      else if url = ''content/blog.json'' then Response False None
      else if url = ''content/services.json''
        then Response True (Some (JObj [(''items'', JArr [plain_service, anxiety_post])]))
      else NetworkFailure)"

text \<open>
  The same server with a contact document, and with a resources document that is not
  found.
\<close>

definition practice_server :: "string \<Rightarrow> fetch_result" where
  "practice_server url =
     (if url = ''content/contact.json''
      then Response True (Some (JObj [(''title'', JStr ''Contact''), (''body'', JStr ''Call us'')]))
      else if url = ''content/resources.json'' then Response False None
      else sample_server url)"

text \<open>
  A server whose services document has an item with its tags written as one string
  instead of a sequence; every other document is a text document.
\<close>

definition broken_services_server :: "string \<Rightarrow> fetch_result" where
  "broken_services_server url =
     (if url = ''content/services.json''
      then Response True (Some (JObj [(''items'',
             JArr [JObj [(''title'', JStr ''Individual Therapy''), (''tags'', JStr ''Therapy'')]])]))
      else Response True (Some (JObj [(''title'', JStr ''Title''), (''body'', JStr ''Body'')])))"

text \<open>
  A server whose booking document has an object as its title, with a member named
  \<open>toString\<close>; every other document is a text document.
\<close>

definition object_title_server :: "string \<Rightarrow> fetch_result" where
  "object_title_server url =
     (if url = ''content/booking.json''
      then Response True (Some (JObj [(''title'', JObj [(''toString'', JNum ''0'')])]))
      else Response True (Some (JObj [(''title'', JStr ''Title''), (''body'', JStr ''Body'')])))"

text \<open>No other task changes the page while the second pass waits.\<close>

definition no_others :: "string \<Rightarrow> page \<Rightarrow> page" where
  "no_others contentType pg = pg"

section \<open>Properties of the navigation controller\<close>

lemma contains_remove [simp]: "contains (remove c cl) c = False"
  by (simp add: contains_def remove_def)

lemma contains_add [simp]: "contains (add c cl) c = True"
  by (simp add: contains_def add_def)

lemma contains_toggle [simp]: "contains (toggle c cl) c = (\<not> contains cl c)"
  by (simp add: contains_def toggle_def add_def remove_def)

lemma fire_in_sync: "in_sync m \<Longrightarrow> in_sync (fire l m)"
  by (cases l) (simp_all add: in_sync_def)

lemma fire_all_in_sync: "in_sync m \<Longrightarrow> in_sync (fire_all ls m)"
  unfolding fire_all_def
  by (induction ls arbitrary: m) (simp_all add: fire_in_sync)

text \<open>
  Claim C10. From a state where neither the menu toggle nor the nav menu carries the
  class \<open>active\<close>, every sequence of menu operations (clicks on the toggle, on a menu
  link, on the document inside or outside the navbar) leads to a state where the
  toggle carries \<open>active\<close> if and only if the menu does.
\<close>

theorem menu_toggle_in_sync:
  assumes "\<not> contains (menuToggle m) activeClass" and "\<not> contains (navMenu m) activeClass"
  shows "contains (menuToggle (fire_all ls m)) activeClass
         = contains (navMenu (fire_all ls m)) activeClass"
proof -
  from assms have "in_sync m" by (simp add: in_sync_def)
  then have "in_sync (fire_all ls m)" by (rule fire_all_in_sync)
  then show ?thesis by (simp add: in_sync_def)
qed

theorem menu_toggle_in_sync_witness:
  "\<not> contains [''menu-toggle''] activeClass \<and> \<not> contains [''nav-menu''] activeClass \<and>
   contains (menuToggle (fire_all [ToggleClick, DocumentClick True, LinkClick, DocumentClick False, ToggleClick]
       \<lparr>menuToggle = [''menu-toggle''], navMenu = [''nav-menu'']\<rparr>)) activeClass
   = contains (navMenu (fire_all [ToggleClick, DocumentClick True, LinkClick, DocumentClick False, ToggleClick]
       \<lparr>menuToggle = [''menu-toggle''], navMenu = [''nav-menu'']\<rparr>)) activeClass"
  using menu_toggle_in_sync [of "\<lparr>menuToggle = [''menu-toggle''], navMenu = [''nav-menu'']\<rparr>"
      "[ToggleClick, DocumentClick True, LinkClick, DocumentClick False, ToggleClick]"]
  by (simp add: contains_def activeClass_def)

lemma current_section_foldl:
  "foldl (\<lambda>current s. if scrollY \<ge> real_of_int (offsetTop s) - 100 then id_attr s else current)
     c sections
   = (if filter (qualifies scrollY) sections = [] then c
      else id_attr (last (filter (qualifies scrollY) sections)))"
proof (induction sections rule: rev_induct)
  case Nil
  show ?case by simp
next
  case (snoc s sections)
  show ?case
  proof (cases "qualifies scrollY s")
    case True
    then have "scrollY \<ge> real_of_int (offsetTop s) - 100" by (simp add: qualifies_def)
    with True show ?thesis by simp
  next
    case False
    then have "\<not> scrollY \<ge> real_of_int (offsetTop s) - 100" by (simp add: qualifies_def)
    with False snoc show ?thesis by simp
  qed
qed

lemma current_section_last_qualifying:
  "current_section scrollY sections
   = (case last_qualifying scrollY sections of None \<Rightarrow> Some [] | Some s \<Rightarrow> id_attr s)"
  unfolding current_section_def last_qualifying_def current_section_foldl
  by (simp split: list.splits)

lemma update_link_data_section: "data_section (update_link current l) = data_section l"
  by (simp add: update_link_def Let_def)

lemma update_link_active: "is_active (update_link current l) = (data_section l = current)"
  by (simp add: update_link_def Let_def is_active_def)

lemma update_link_other:
  "c \<noteq> activeClass \<Longrightarrow> contains (classes (update_link current l)) c = contains (classes l) c"
  by (auto simp: update_link_def Let_def contains_def add_def remove_def)

text \<open>
  Claim C9, as amended. One run of the scroll-spy handler keeps the links and their
  order, and marks \<open>active\<close> exactly the links whose \<open>data-section\<close> attribute is
  strictly equal to the comparison value: the \<open>id\<close> attribute of the last section in
  document order whose top lies at or above the scroll offset plus 100 pixels, or the
  empty string when no section qualifies. Every other link loses the class, and no
  other class of a link changes. So when no section qualifies, the links marked active
  are those whose \<open>data-section\<close> attribute is the empty string, and none when every
  link names a section.
\<close>

theorem scroll_spy_marks_matching_links:
  "map data_section (scroll_handler scrollY sections navLinks) = map data_section navLinks
   \<and> map is_active (scroll_handler scrollY sections navLinks)
     = map (\<lambda>l. data_section l
                 = (case last_qualifying scrollY sections of None \<Rightarrow> Some [] | Some s \<Rightarrow> id_attr s))
         navLinks
   \<and> (\<forall>c. c \<noteq> activeClass \<longrightarrow>
         map (\<lambda>l. contains (classes l) c) (scroll_handler scrollY sections navLinks)
         = map (\<lambda>l. contains (classes l) c) navLinks)
   \<and> (last_qualifying scrollY sections = None \<and> (\<forall>l \<in> set navLinks. data_section l \<noteq> Some [])
        \<longrightarrow> (\<forall>l \<in> set (scroll_handler scrollY sections navLinks). \<not> is_active l))"
proof -
  let ?cur = "current_section scrollY sections"
  have a: "map data_section (scroll_handler scrollY sections navLinks) = map data_section navLinks"
    by (simp add: scroll_handler_def update_link_data_section)
  have b: "map is_active (scroll_handler scrollY sections navLinks)
           = map (\<lambda>l. data_section l = ?cur) navLinks"
    by (simp add: scroll_handler_def update_link_active)
  have c: "\<forall>c. c \<noteq> activeClass \<longrightarrow>
         map (\<lambda>l. contains (classes l) c) (scroll_handler scrollY sections navLinks)
         = map (\<lambda>l. contains (classes l) c) navLinks"
    by (simp add: scroll_handler_def update_link_other)
  have d: "last_qualifying scrollY sections = None \<and> (\<forall>l \<in> set navLinks. data_section l \<noteq> Some [])
        \<longrightarrow> (\<forall>l \<in> set (scroll_handler scrollY sections navLinks). \<not> is_active l)"
    by (auto simp: scroll_handler_def update_link_active current_section_last_qualifying)
  from a b c d show ?thesis
    by (simp only: current_section_last_qualifying) 
qed

theorem scroll_spy_marks_matching_links_witness:
  "last_qualifying 0 [\<lparr>offsetTop = 150, id_attr = Some ''home''\<rparr>,
                      \<lparr>offsetTop = 900, id_attr = Some ''about''\<rparr>] = None
   \<and> map is_active (scroll_handler 0
         [\<lparr>offsetTop = 150, id_attr = Some ''home''\<rparr>, \<lparr>offsetTop = 900, id_attr = Some ''about''\<rparr>]
         [\<lparr>data_section = Some ''home'', classes = [''nav-link'', ''active'']\<rparr>,
          \<lparr>data_section = Some ''about'', classes = [''nav-link'']\<rparr>]) = [False, False]
   \<and> map (\<lambda>l. contains (classes l) ''nav-link'') (scroll_handler 0
         [\<lparr>offsetTop = 150, id_attr = Some ''home''\<rparr>, \<lparr>offsetTop = 900, id_attr = Some ''about''\<rparr>]
         [\<lparr>data_section = Some ''home'', classes = [''nav-link'', ''active'']\<rparr>,
          \<lparr>data_section = Some ''about'', classes = [''nav-link'']\<rparr>]) = [True, True]"
  using scroll_spy_marks_matching_links [of 0
      "[\<lparr>offsetTop = 150, id_attr = Some ''home''\<rparr>, \<lparr>offsetTop = 900, id_attr = Some ''about''\<rparr>]"
      "[\<lparr>data_section = Some ''home'', classes = [''nav-link'', ''active'']\<rparr>,
        \<lparr>data_section = Some ''about'', classes = [''nav-link'']\<rparr>]"]
  by (simp add: last_qualifying_def qualifies_def contains_def activeClass_def)

text \<open>
  Claim C9 as stated fails on the last clause: with no qualifying section the comparison
  value is the empty string, and a link whose \<open>data-section\<close> attribute is empty is marked.
\<close>

theorem scroll_spy_empty_data_section_counterexample:
  "last_qualifying 0 [\<lparr>offsetTop = 500, id_attr = Some ''about''\<rparr>] = None
   \<and> map is_active (scroll_handler 0 [\<lparr>offsetTop = 500, id_attr = Some ''about''\<rparr>]
         [\<lparr>data_section = Some [], classes = []\<rparr>,
          \<lparr>data_section = Some ''about'', classes = []\<rparr>]) = [True, False]"
  by (simp add: last_qualifying_def qualifies_def scroll_handler_def current_section_def
      update_link_def is_active_def contains_def add_def remove_def activeClass_def)

section \<open>Properties of the form controller\<close>

lemma all_dropWhile: "(\<forall>c \<in> set (dropWhile P s). P c) = (\<forall>c \<in> set s. P c)"
  by (induction s) auto

lemma trim_eq_Nil: "(trim s = []) = (\<forall>c \<in> set s. is_space c)"
  by (simp add: trim_def dropWhile_eq_Nil_conv all_dropWhile)

lemma regex_test_Once:
  "regex_test ((a, Once) # r) s = (\<exists>c q. s = c # q \<and> atom_matches a c \<and> regex_test r q)"
  by (cases s) auto

lemma regex_test_Plus:
  "regex_test ((a, Plus) # r) s
   = (\<exists>p q. s = p @ q \<and> p \<noteq> [] \<and> (\<forall>c \<in> set p. atom_matches a c) \<and> regex_test r q)"
proof (induction s)
  case Nil
  show ?case by simp
next
  case (Cons c cs)
  show ?case
  proof
    assume "regex_test ((a, Plus) # r) (c # cs)"
    then have c: "atom_matches a c" and
      d: "regex_test ((a, Plus) # r) cs \<or> regex_test r cs" by simp_all
    from d show "\<exists>p q. c # cs = p @ q \<and> p \<noteq> [] \<and> (\<forall>c \<in> set p. atom_matches a c) \<and> regex_test r q"
    proof
      assume "regex_test ((a, Plus) # r) cs"
      with Cons obtain p q where "cs = p @ q" "p \<noteq> []" "\<forall>c \<in> set p. atom_matches a c" "regex_test r q"
        by blast
      with c have "c # cs = (c # p) @ q \<and> c # p \<noteq> [] \<and> (\<forall>x \<in> set (c # p). atom_matches a x) \<and> regex_test r q"
        by simp
      then show ?thesis by blast
    next
      assume "regex_test r cs"
      with c have "c # cs = [c] @ cs \<and> [c] \<noteq> [] \<and> (\<forall>x \<in> set [c]. atom_matches a x) \<and> regex_test r cs"
        by simp
      then show ?thesis by blast
    qed
  next
    assume "\<exists>p q. c # cs = p @ q \<and> p \<noteq> [] \<and> (\<forall>c \<in> set p. atom_matches a c) \<and> regex_test r q"
    then obtain p q where pq: "c # cs = p @ q" "p \<noteq> []" "\<forall>c \<in> set p. atom_matches a c" "regex_test r q"
      by blast
    then obtain p' where p': "p = c # p'" "cs = p' @ q" by (cases p) auto
    show "regex_test ((a, Plus) # r) (c # cs)"
    proof (cases "p' = []")
      case True
      with pq p' show ?thesis by simp
    next
      case False
      with pq p' have "regex_test ((a, Plus) # r) cs" using Cons by auto
      with pq p' show ?thesis by simp
    qed
  qed
qed

lemma regex_test_Plus_last:
  "regex_test [(a, Plus)] s = (s \<noteq> [] \<and> (\<forall>c \<in> set s. atom_matches a c))"
  by (simp add: regex_test_Plus)


lemma regex_test_Plus_Lit:
  "regex_test ((a, Plus) # (Lit d, Once) # r) s
   = (\<exists>p q. s = p @ d # q \<and> p \<noteq> [] \<and> (\<forall>c \<in> set p. atom_matches a c) \<and> regex_test r q)"
proof
  assume "regex_test ((a, Plus) # (Lit d, Once) # r) s"
  then obtain p q where pq: "s = p @ q" "p \<noteq> []" "\<forall>c \<in> set p. atom_matches a c"
    "regex_test ((Lit d, Once) # r) q"
    unfolding regex_test_Plus by blast
  from pq(4) obtain q' where "q = d # q'" "regex_test r q'"
    unfolding regex_test_Once by auto
  with pq have "s = p @ d # q' \<and> p \<noteq> [] \<and> (\<forall>c \<in> set p. atom_matches a c) \<and> regex_test r q'"
    by simp
  then show "\<exists>p q. s = p @ d # q \<and> p \<noteq> [] \<and> (\<forall>c \<in> set p. atom_matches a c) \<and> regex_test r q"
    by (intro exI)
next
  assume "\<exists>p q. s = p @ d # q \<and> p \<noteq> [] \<and> (\<forall>c \<in> set p. atom_matches a c) \<and> regex_test r q"
  then obtain p q where pq: "s = p @ d # q" "p \<noteq> []" "\<forall>c \<in> set p. atom_matches a c" "regex_test r q"
    by blast
  then have "regex_test ((Lit d, Once) # r) (d # q)" by simp
  with pq have "s = p @ (d # q) \<and> p \<noteq> [] \<and> (\<forall>c \<in> set p. atom_matches a c)
      \<and> regex_test ((Lit d, Once) # r) (d # q)"
    by simp
  then show "regex_test ((a, Plus) # (Lit d, Once) # r) s"
    unfolding regex_test_Plus [of a "(Lit d, Once) # r"] by (intro exI)
qed


lemma emailRegex_iff:
  "regex_test emailRegex v
   = (\<exists>l d t. v = l @ ''@'' @ d @ ''.'' @ t \<and> l \<noteq> [] \<and> d \<noteq> [] \<and> t \<noteq> []
        \<and> (\<forall>c \<in> set (l @ d @ t). \<not> is_space c \<and> c \<noteq> CHR ''@''))"
proof
  let ?N = "NoneOf [Whitespace, Single (CHR ''@'')]"
  assume "regex_test emailRegex v"
  then have "regex_test ((?N, Plus) # (Lit (CHR ''@''), Once) # [(?N, Plus), (Lit (CHR ''.''), Once), (?N, Plus)]) v"
    by (simp add: emailRegex_def)
  then obtain l q where l: "v = l @ CHR ''@'' # q" "l \<noteq> []" "\<forall>c \<in> set l. atom_matches ?N c"
    and q: "regex_test ((?N, Plus) # (Lit (CHR ''.''), Once) # [(?N, Plus)]) q"
    unfolding regex_test_Plus_Lit [of ?N "CHR ''@''"] by blast
  from q obtain d t where d: "q = d @ CHR ''.'' # t" "d \<noteq> []" "\<forall>c \<in> set d. atom_matches ?N c"
    and t: "regex_test [(?N, Plus)] t"
    unfolding regex_test_Plus_Lit [of ?N "CHR ''.''"] by blast
  from t have t': "t \<noteq> []" "\<forall>c \<in> set t. atom_matches ?N c"
    by (simp_all add: regex_test_Plus_last)
  from l d t' have "v = l @ ''@'' @ d @ ''.'' @ t \<and> l \<noteq> [] \<and> d \<noteq> [] \<and> t \<noteq> []
        \<and> (\<forall>c \<in> set (l @ d @ t). \<not> is_space c \<and> c \<noteq> CHR ''@'')"
    by (simp add: ball_Un)
  then show "\<exists>l d t. v = l @ ''@'' @ d @ ''.'' @ t \<and> l \<noteq> [] \<and> d \<noteq> [] \<and> t \<noteq> []
        \<and> (\<forall>c \<in> set (l @ d @ t). \<not> is_space c \<and> c \<noteq> CHR ''@'')"
    by (intro exI)
next
  let ?N = "NoneOf [Whitespace, Single (CHR ''@'')]"
  assume "\<exists>l d t. v = l @ ''@'' @ d @ ''.'' @ t \<and> l \<noteq> [] \<and> d \<noteq> [] \<and> t \<noteq> []
        \<and> (\<forall>c \<in> set (l @ d @ t). \<not> is_space c \<and> c \<noteq> CHR ''@'')"
  then obtain l d t where v: "v = l @ ''@'' @ d @ ''.'' @ t" and ne: "l \<noteq> []" "d \<noteq> []" "t \<noteq> []"
    and ok: "\<forall>c \<in> set (l @ d @ t). \<not> is_space c \<and> c \<noteq> CHR ''@''"
    by (elim exE conjE)
  from ok have okl: "\<forall>c \<in> set l. atom_matches ?N c" and okd: "\<forall>c \<in> set d. atom_matches ?N c"
    and okt: "\<forall>c \<in> set t. atom_matches ?N c"
    by simp_all
  from ne(3) okt have t: "regex_test [(?N, Plus)] t"
    by (simp only: regex_test_Plus_last simp_thms)
  have d: "regex_test ((?N, Plus) # (Lit (CHR ''.''), Once) # [(?N, Plus)]) (d @ CHR ''.'' # t)"
    by (rule iffD2 [OF regex_test_Plus_Lit], rule exI [of _ d], rule exI [of _ t])
       (intro conjI refl ne okd t)
  have "regex_test ((?N, Plus) # (Lit (CHR ''@''), Once) # [(?N, Plus), (Lit (CHR ''.''), Once), (?N, Plus)])
           (l @ CHR ''@'' # (d @ CHR ''.'' # t))"
    by (rule iffD2 [OF regex_test_Plus_Lit], rule exI [of _ l], rule exI [of _ "d @ CHR ''.'' # t"])
       (intro conjI refl ne okl d)
  with v show "regex_test emailRegex v"
    by (simp add: emailRegex_def)
qed

lemma validateForm_errors:
  "map fst (fieldErrors (snd (validateForm p)))
   = (if name_ok (input_value (nameInput p)) then [] else [NameInput])
     @ (if email_ok (input_value (emailInput p)) then [] else [EmailInput])
     @ (if message_ok (input_value (messageInput p)) then [] else [MessageInput])"
  by (simp add: validateForm_def validate_name_def validate_email_def validate_message_def
      clearErrors_def name_ok_def email_ok_def message_ok_def add_error_class_def
      remove_error_class_def)

lemma validateForm_flag:
  "fst (validateForm p) = (fieldErrors (snd (validateForm p)) = [])"
  by (simp add: validateForm_def validate_name_def validate_email_def validate_message_def
      clearErrors_def add_error_class_def remove_error_class_def)

lemma validateForm_alerts: "alerts (snd (validateForm p)) = alerts p"
  by (simp add: validateForm_def validate_name_def validate_email_def validate_message_def
      clearErrors_def add_error_class_def remove_error_class_def)

lemma validateForm_submitBtn: "submitBtn (snd (validateForm p)) = submitBtn p"
  by (simp add: validateForm_def validate_name_def validate_email_def validate_message_def
      clearErrors_def add_error_class_def remove_error_class_def)

lemma length_trim_le: "length (trim s) \<le> length s"
proof -
  have "length (trim s) \<le> length (dropWhile is_space s)"
    unfolding trim_def using length_dropWhile_le [of is_space "rev (dropWhile is_space s)"] by simp
  also have "\<dots> \<le> length s" by (rule length_dropWhile_le)
  finally show ?thesis .
qed

lemma not_an_email: "\<not> email_ok ''not-an-email''"
  by (simp add: email_ok_def emailRegex_def is_space_def)

lemma handleFormSubmit_unfold:
  "handleFormSubmit p =
     (if \<not> fst (validateForm p) then (Inr (), snd (validateForm p))
      else let r = submit_try (snd (validateForm p));
               p3 = (case fst r of None \<Rightarrow> snd r | Some e \<Rightarrow> submit_catch e (snd r));
               f = submit_finally p3
           in (case fst f of None \<Rightarrow> (Inr (), snd f) | Some e \<Rightarrow> (Inl e, snd f)))"
  by (simp add: handleFormSubmit_def case_prod_beta Let_def)

lemma handleFormSubmit_invalid:
  "\<not> fst (validateForm p) \<Longrightarrow> handleFormSubmit p = (Inr (), snd (validateForm p))"
  by (simp add: handleFormSubmit_unfold)

lemma resolve_originalText_finally:
  "resolve [finally_scope, function_scope, module_scope, global_scope] ''originalText''
   = Inl (ReferenceError ''originalText is not defined'')"
  by (simp add: resolve_def finally_scope_def function_scope_def module_scope_def global_scope_def)

lemma resolve_originalText_try:
  "resolve [try_scope b, function_scope, module_scope, global_scope] ''originalText''
   = Inr (StringValue (textContent b))"
  by (simp add: resolve_def try_scope_def)

lemma submit_try_button:
  assumes "submitBtn p = Some b"
  shows "fst (submit_try p) = None"
    and "submitBtn (snd (submit_try p)) = Some (b\<lparr>disabled := True, textContent := ''Sending...''\<rparr>)"
  using assms
  by (simp_all add: submit_try_def showSuccessMessage_def showNotification_def reset_def
      logEvent_def Let_def)

lemma submit_finally_button:
  assumes "submitBtn p = Some b"
  shows "fst (submit_finally p) = Some (ReferenceError ''originalText is not defined'')"
    and "submitBtn (snd (submit_finally p)) = Some (b\<lparr>disabled := False\<rparr>)"
  using assms
  by (simp_all add: submit_finally_def resolve_originalText_finally Let_def)

lemma handleFormSubmit_valid:
  assumes "fst (validateForm p)" and "submitBtn p = Some b"
  shows "fst (handleFormSubmit p) = Inl (ReferenceError ''originalText is not defined'')"
    and "submitBtn (snd (handleFormSubmit p)) = Some (b\<lparr>disabled := False, textContent := ''Sending...''\<rparr>)"
proof -
  let ?p1 = "snd (validateForm p)"
  let ?r = "submit_try ?p1"
  have b1: "submitBtn ?p1 = Some b"
    using assms(2) by (simp add: validateForm_submitBtn)
  note t = submit_try_button [OF b1]
  let ?f = "submit_finally (snd ?r)"
  note f = submit_finally_button [OF t(2)]
  have h: "handleFormSubmit p = (Inl (ReferenceError ''originalText is not defined''), snd ?f)"
    using assms(1) t(1) f(1) by (simp add: handleFormSubmit_unfold Let_def)
  show "fst (handleFormSubmit p) = Inl (ReferenceError ''originalText is not defined'')"
    by (simp add: h)
  show "submitBtn (snd (handleFormSubmit p)) = Some (b\<lparr>disabled := False, textContent := ''Sending...''\<rparr>)"
    by (simp add: h f(2))
qed

lemma valid_submission_valid: "fst (validateForm valid_submission)"
  by (simp add: valid_submission_def validateForm_def validate_name_def validate_email_def
      validate_message_def clearErrors_def remove_error_class_def trim_def is_space_def emailRegex_def)

lemma email_accepted_email_ok: "email_accepted p = email_ok (input_value (emailInput p))"
  by (simp add: email_accepted_def validateForm_errors)

lemma emailRegex_not_blank: "regex_test emailRegex v \<Longrightarrow> trim v \<noteq> []"
proof -
  assume "regex_test emailRegex v"
  then obtain l d t where "v = l @ ''@'' @ d @ ''.'' @ t"
    unfolding emailRegex_iff by (elim exE conjE)
  then have "CHR ''@'' \<in> set v" by simp
  moreover have "\<not> is_space (CHR ''@'')" by (simp add: is_space_def)
  ultimately show ?thesis unfolding trim_eq_Nil by blast
qed

text \<open>
  Claim C4, as amended. For every email input, validation accepts the email exactly
  when the value is one or more characters that are neither white space nor \<open>@\<close>, then
  \<open>@\<close>, then one or more such characters, then a dot, then one or more such characters.
  A value with a second \<open>@\<close> in one of the parts, such as \<open>a@b@c.d\<close>, is rejected.
\<close>

theorem email_accepted_iff:
  "email_accepted p =
     (\<exists>l d t. input_value (emailInput p) = l @ ''@'' @ d @ ''.'' @ t
        \<and> l \<noteq> [] \<and> d \<noteq> [] \<and> t \<noteq> []
        \<and> (\<forall>c \<in> set (l @ d @ t). \<not> is_space c \<and> c \<noteq> CHR ''@''))"
proof -
  have "email_accepted p = regex_test emailRegex (input_value (emailInput p))"
    using emailRegex_not_blank [of "input_value (emailInput p)"]
    by (auto simp: email_accepted_email_ok email_ok_def)
  then show ?thesis by (simp only: emailRegex_iff)
qed

theorem email_accepted_iff_witness:
  "input_value (emailInput valid_submission) = ''jane'' @ ''@'' @ ''example'' @ ''.'' @ ''com''
   \<and> email_accepted valid_submission"
proof
  show v: "input_value (emailInput valid_submission) = ''jane'' @ ''@'' @ ''example'' @ ''.'' @ ''com''"
    by (simp add: valid_submission_def)
  have "input_value (emailInput valid_submission) = ''jane'' @ ''@'' @ ''example'' @ ''.'' @ ''com''
        \<and> ''jane'' \<noteq> [] \<and> ''example'' \<noteq> [] \<and> ''com'' \<noteq> []
        \<and> (\<forall>c \<in> set (''jane'' @ ''example'' @ ''com''). \<not> is_space c \<and> c \<noteq> CHR ''@'')"
    using v by (simp add: is_space_def)
  then have "\<exists>l d t. input_value (emailInput valid_submission) = l @ ''@'' @ d @ ''.'' @ t
        \<and> l \<noteq> [] \<and> d \<noteq> [] \<and> t \<noteq> []
        \<and> (\<forall>c \<in> set (l @ d @ t). \<not> is_space c \<and> c \<noteq> CHR ''@'')"
    by (intro exI)
  then show "email_accepted valid_submission"
    by (rule iffD2 [OF email_accepted_iff])
qed

text \<open>
  Claim C4 as stated fails: \<open>a@b@c.d\<close> matches the pattern of non-space parts, and
  validation puts an error on the email input.
\<close>

theorem second_at_sign_counterexample:
  "regex_test claimedPattern ''a@b@c.d'' \<and> \<not> email_accepted two_at_submission"
  by (simp add: claimedPattern_def is_space_def email_accepted_email_ok email_ok_def
      two_at_submission_def emailRegex_def)

text \<open>
  Claim C7. Validation runs the name, email and message rules independently: the
  inputs with an error are exactly those whose own rule fails, in the order name,
  email, message, and the form is valid exactly when there is no error. Submitting an
  empty name, the email \<open>not-an-email\<close> and a message of 5 characters gives exactly three
  field errors, one per input; the submission handler returns after validation, adds
  no banner and leaves the submit button alone.
\<close>

theorem three_field_errors:
  "map fst (fieldErrors (snd (validateForm p)))
     = (if name_ok (input_value (nameInput p)) then [] else [NameInput])
       @ (if email_ok (input_value (emailInput p)) then [] else [EmailInput])
       @ (if message_ok (input_value (messageInput p)) then [] else [MessageInput])
   \<and> fst (validateForm p) = (fieldErrors (snd (validateForm p)) = [])
   \<and> (input_value (nameInput p) = [] \<and> input_value (emailInput p) = ''not-an-email''
        \<and> length (input_value (messageInput p)) = 5
      \<longrightarrow> length (fieldErrors (snd (validateForm p))) = 3
          \<and> map fst (fieldErrors (snd (validateForm p))) = [NameInput, EmailInput, MessageInput]
          \<and> \<not> fst (validateForm p)
          \<and> handleFormSubmit p = (Inr (), snd (validateForm p))
          \<and> alerts (snd (handleFormSubmit p)) = alerts p
          \<and> submitBtn (snd (handleFormSubmit p)) = submitBtn p)"
proof (intro conjI impI)
  show "map fst (fieldErrors (snd (validateForm p)))
     = (if name_ok (input_value (nameInput p)) then [] else [NameInput])
       @ (if email_ok (input_value (emailInput p)) then [] else [EmailInput])
       @ (if message_ok (input_value (messageInput p)) then [] else [MessageInput])"
    by (rule validateForm_errors)
  show "fst (validateForm p) = (fieldErrors (snd (validateForm p)) = [])"
    by (rule validateForm_flag)
next
  assume a: "input_value (nameInput p) = [] \<and> input_value (emailInput p) = ''not-an-email''
        \<and> length (input_value (messageInput p)) = 5"
  have n: "\<not> name_ok (input_value (nameInput p))"
    using a by (simp add: name_ok_def trim_def)
  have e: "\<not> email_ok (input_value (emailInput p))"
    using a not_an_email by simp
  have "length (trim (input_value (messageInput p))) \<le> 5"
    using a length_trim_le [of "input_value (messageInput p)"] by simp
  then have m: "\<not> message_ok (input_value (messageInput p))"
    by (simp add: message_ok_def)
  show three: "map fst (fieldErrors (snd (validateForm p))) = [NameInput, EmailInput, MessageInput]"
    using n e m by (simp add: validateForm_errors)
  from three have "length (map fst (fieldErrors (snd (validateForm p)))) = 3"
    by simp
  then show "length (fieldErrors (snd (validateForm p))) = 3"
    by simp
  from three show invalid: "\<not> fst (validateForm p)"
    by (auto simp: validateForm_flag)
  then show h: "handleFormSubmit p = (Inr (), snd (validateForm p))"
    by (rule handleFormSubmit_invalid)
  show "alerts (snd (handleFormSubmit p)) = alerts p"
    by (simp add: h validateForm_alerts)
  show "submitBtn (snd (handleFormSubmit p)) = submitBtn p"
    by (simp add: h validateForm_submitBtn)
qed

lemma validateForm_invalid_submission:
  "validateForm invalid_submission =
     (False, invalid_submission
        \<lparr>nameInput := \<lparr>input_value = [], defaultValue = [], field_classes = [''error'']\<rparr>,
          emailInput := \<lparr>input_value = ''not-an-email'', defaultValue = [], field_classes = [''error'']\<rparr>,
          messageInput := \<lparr>input_value = ''Hello'', defaultValue = [], field_classes = [''error'']\<rparr>,
          fieldErrors := [(NameInput, ''Name is required''),
                          (EmailInput, ''Please enter a valid email''),
                          (MessageInput, ''Message must be at least 10 characters'')]\<rparr>)"
  by (simp add: invalid_submission_def validateForm_def validate_name_def validate_email_def
      validate_message_def clearErrors_def remove_error_class_def add_error_class_def trim_def
      is_space_def emailRegex_def add_def remove_def)

theorem three_field_errors_witness:
  "input_value (nameInput invalid_submission) = []
   \<and> input_value (emailInput invalid_submission) = ''not-an-email''
   \<and> length (input_value (messageInput invalid_submission)) = 5
   \<and> fieldErrors (snd (validateForm invalid_submission))
       = [(NameInput, ''Name is required''), (EmailInput, ''Please enter a valid email''),
          (MessageInput, ''Message must be at least 10 characters'')]
   \<and> length (fieldErrors (snd (validateForm invalid_submission))) = 3
   \<and> fst (handleFormSubmit invalid_submission) = Inr ()
   \<and> alerts (snd (handleFormSubmit invalid_submission)) = []"
  using three_field_errors [of invalid_submission]
  by (simp add: validateForm_invalid_submission) (simp add: invalid_submission_def)

text \<open>
  Claim C1 does not hold of the code. \<open>originalText\<close> is declared in the \<open>try\<close> block and
  resolves there to the label of the button, but not in the \<open>finally\<close> block. On the
  valid submission of Jane Doe, whose submit button reads \<open>Send Message\<close>, the handler
  shows the success banner, enables the button again and then fails in its \<open>finally\<close>
  block with a \<open>ReferenceError\<close> on \<open>originalText\<close>: the label stays \<open>Sending...\<close> and the
  promise of the handler is rejected.
\<close>

theorem submit_button_label_not_restored:
  "resolve [try_scope \<lparr>disabled = False, textContent = ''Send Message''\<rparr>, function_scope,
            module_scope, global_scope] ''originalText'' = Inr (StringValue ''Send Message'')
   \<and> resolve [finally_scope, function_scope, module_scope, global_scope] ''originalText''
       = Inl (ReferenceError ''originalText is not defined'')
   \<and> fst (validateForm valid_submission)
   \<and> submitBtn valid_submission = Some \<lparr>disabled = False, textContent = ''Send Message''\<rparr>
   \<and> fst (handleFormSubmit valid_submission) = Inl (ReferenceError ''originalText is not defined'')
   \<and> submitBtn (snd (handleFormSubmit valid_submission))
       = Some \<lparr>disabled = False, textContent = ''Sending...''\<rparr>
   \<and> alerts (snd (handleFormSubmit valid_submission))
       = [(''alert alert-success'', ''Message sent successfully! We'll be in touch soon.'')]"
proof -
  have b: "submitBtn valid_submission = Some \<lparr>disabled = False, textContent = ''Send Message''\<rparr>"
    by (simp add: valid_submission_def)
  note h = handleFormSubmit_valid [OF valid_submission_valid b]
  have al: "alerts (snd (handleFormSubmit valid_submission))
       = [(''alert alert-success'', ''Message sent successfully! We'll be in touch soon.'')]"
    using valid_submission_valid b validateForm_alerts [of valid_submission]
      validateForm_submitBtn [of valid_submission]
    by (simp add: handleFormSubmit_unfold submit_try_def submit_finally_def
        resolve_originalText_finally showSuccessMessage_def showNotification_def reset_def
        logEvent_def Let_def) (simp add: valid_submission_def)
  from valid_submission_valid b h al resolve_originalText_finally
    resolve_originalText_try [of "\<lparr>disabled = False, textContent = ''Send Message''\<rparr>"]
  show ?thesis by simp
qed

section \<open>Properties of the content loader\<close>

lemma load_fst: "fst (load server contentType w) = Inr (loaded server contentType)"
  by (simp add: load_def load_try_def loaded_def Let_def split: fetch_result.splits option.splits)

lemma load_fetched: "fetched (snd (load server contentType w)) = fetched w @ [content_url contentType]"
  by (simp add: load_def load_try_def Let_def split: fetch_result.splits option.splits)

lemma load_document: "document (snd (load server contentType w)) = document w"
  by (simp add: load_def load_try_def Let_def split: fetch_result.splits option.splits)

text \<open>
  Claim C6. For every content name, \<open>load\<close> requests \<open>content/{name}.json\<close>, never throws
  to its caller, and returns the parsed document when the response is a success and
  its body parses; it returns \<open>null\<close> on a network failure, on a non-success status and
  on a body that does not parse. It does not touch the page.
\<close>

theorem load_returns_document_or_null:
  "(\<exists>v. fst (load server name w) = Inr v)
   \<and> fetched (snd (load server name w)) = fetched w @ [''content/'' @ name @ ''.json'']
   \<and> document (snd (load server name w)) = document w
   \<and> (\<forall>d. server (''content/'' @ name @ ''.json'') = Response True (Some d)
          \<longrightarrow> fst (load server name w) = Inr d)
   \<and> (server (''content/'' @ name @ ''.json'') = NetworkFailure
          \<longrightarrow> fst (load server name w) = Inr JNull)
   \<and> (\<forall>body. server (''content/'' @ name @ ''.json'') = Response False body
          \<longrightarrow> fst (load server name w) = Inr JNull)
   \<and> (server (''content/'' @ name @ ''.json'') = Response True None
          \<longrightarrow> fst (load server name w) = Inr JNull)"
  by (simp add: load_fst load_fetched load_document loaded_def content_url_def)

theorem load_returns_document_or_null_witness:
  "fst (load sample_server ''hero'' sample_world) = Inr (JObj [(''subtitle'', JStr ''Welcome'')])
   \<and> fst (load sample_server ''about'' sample_world) = Inr JNull
   \<and> fst (load sample_server ''blog'' sample_world) = Inr JNull
   \<and> fst (load sample_server ''contact'' sample_world) = Inr JNull
   \<and> fetched (snd (load sample_server ''contact'' sample_world)) = [''content/contact.json'']"
  using load_returns_document_or_null [of sample_server "''hero''" sample_world]
    load_returns_document_or_null [of sample_server "''about''" sample_world]
    load_returns_document_or_null [of sample_server "''blog''" sample_world]
    load_returns_document_or_null [of sample_server "''contact''" sample_world]
  by (simp add: sample_server_def sample_world_def)

lemma querySelector_Some:
  "querySelector pg selector = Some c \<Longrightarrow> selector = CHR ''#'' # c \<and> elements pg c \<noteq> None"
  by (auto simp: querySelector_def split: list.splits if_splits)

lemma render_condition:
  "(truthy content \<and> get content ''render'' = Inr (JBool False)) = render_is_false content"
  by (cases content) (simp_all add: render_is_false_def)

lemma handleConditionalRendering_found:
  "querySelector pg selector = Some c \<Longrightarrow>
   handleConditionalRendering content selector pg
   = (if render_is_false content
      then remove_navSpacer c (remove_navLink c (remove_element c pg)) else pg)"
  by (simp add: handleConditionalRendering_def render_condition)

text \<open>
  Claim C5. For a section whose container exists, the visibility rule changes the page
  exactly when the document has its \<open>render\<close> field explicitly equal to \<open>false\<close>; it then
  deletes the container, the first link and the first spacer whose \<open>data-section\<close> is the
  id of the container, and nothing else. A \<open>null\<close> document, a document without the
  field and one whose field is \<open>null\<close> leave the page unchanged, and so does the callback
  of a section whose load failed.
\<close>

theorem visibility_rule:
  assumes "querySelector pg selector = Some container"
  shows "(handleConditionalRendering content selector pg \<noteq> pg) = render_is_false content
   \<and> (render_is_false content \<longrightarrow>
        elements (handleConditionalRendering content selector pg) container = None
        \<and> (\<forall>i. i \<noteq> container \<longrightarrow>
              elements (handleConditionalRendering content selector pg) i = elements pg i)
        \<and> linkTargets (handleConditionalRendering content selector pg)
            = remove1 container (linkTargets pg)
        \<and> spacerTargets (handleConditionalRendering content selector pg)
            = remove1 container (spacerTargets pg))
   \<and> handleConditionalRendering JNull selector pg = pg
   \<and> (\<forall>kvs. own_property kvs ''render'' = JUndefined \<or> own_property kvs ''render'' = JNull
         \<longrightarrow> handleConditionalRendering (JObj kvs) selector pg = pg)
   \<and> (\<forall>server type w. loaded server type = JNull
         \<longrightarrow> document (check_section server (type, selector) w) = document w)"
proof -
  note h = handleConditionalRendering_found [OF assms]
  from assms have present: "elements pg container \<noteq> None"
    by (simp add: querySelector_Some)
  have removed: "elements (remove_navSpacer container (remove_navLink container (remove_element container pg)))
      container = None"
    by (simp add: remove_navSpacer_def remove_navLink_def remove_element_def)
  have changed: "remove_navSpacer container (remove_navLink container (remove_element container pg)) \<noteq> pg"
    using present removed by metis
  have 1: "(handleConditionalRendering content selector pg \<noteq> pg) = render_is_false content"
    using changed by (simp add: h)
  have 2: "render_is_false content \<longrightarrow>
        elements (handleConditionalRendering content selector pg) container = None
        \<and> (\<forall>i. i \<noteq> container \<longrightarrow>
              elements (handleConditionalRendering content selector pg) i = elements pg i)
        \<and> linkTargets (handleConditionalRendering content selector pg)
            = remove1 container (linkTargets pg)
        \<and> spacerTargets (handleConditionalRendering content selector pg)
            = remove1 container (spacerTargets pg)"
    by (simp add: h remove_navSpacer_def remove_navLink_def remove_element_def)
  have 3: "handleConditionalRendering JNull selector pg = pg"
    by (simp add: handleConditionalRendering_def split: option.splits)
  have 4: "\<forall>kvs. own_property kvs ''render'' = JUndefined \<or> own_property kvs ''render'' = JNull
         \<longrightarrow> handleConditionalRendering (JObj kvs) selector pg = pg"
    by (auto simp: h render_is_false_def)
  have 5: "\<forall>server type w. loaded server type = JNull
         \<longrightarrow> document (check_section server (type, selector) w) = document w"
  proof (intro allI impI)
    fix server type w
    assume n: "loaded server type = JNull"
    obtain r w1 where l: "load server type w = (r, w1)" by (cases "load server type w")
    with load_fst [of server type w] n load_document [of server type w]
    have "r = Inr JNull" "document w1 = document w" by simp_all
    with l show "document (check_section server (type, selector) w) = document w"
      by (simp add: check_section_def handleConditionalRendering_def split: option.splits)
  qed
  from 1 2 3 4 5 show ?thesis by (intro conjI)
qed

theorem visibility_rule_witness:
  "(''resources'', ''#resources'') \<in> set sectionsToCheck
   \<and> querySelector sample_page ''#resources'' = Some ''resources''
   \<and> render_is_false (JObj [(''title'', JStr ''Resources''), (''render'', JBool False)])
   \<and> elements (handleConditionalRendering (JObj [(''title'', JStr ''Resources''), (''render'', JBool False)])
        ''#resources'' sample_page) ''resources'' = None
   \<and> linkTargets (handleConditionalRendering (JObj [(''title'', JStr ''Resources''), (''render'', JBool False)])
        ''#resources'' sample_page) = [''home'', ''about'', ''services'', ''booking'', ''contact'']
   \<and> spacerTargets (handleConditionalRendering (JObj [(''title'', JStr ''Resources''), (''render'', JBool False)])
        ''#resources'' sample_page) = []
   \<and> handleConditionalRendering (JObj [(''title'', JStr ''Resources'')]) ''#resources'' sample_page = sample_page
   \<and> handleConditionalRendering (JObj [(''render'', JNull)]) ''#resources'' sample_page = sample_page
   \<and> loaded sample_server ''resources'' = JNull
   \<and> document (check_section sample_server (''resources'', ''#resources'') sample_world) = sample_page"
proof -
  have q: "querySelector sample_page ''#resources'' = Some ''resources''"
    by (simp add: querySelector_def sample_page_def)
  have r: "render_is_false (JObj [(''title'', JStr ''Resources''), (''render'', JBool False)])"
    by (simp add: render_is_false_def own_property_def)
  have u: "own_property [(''title'', JStr ''Resources'')] ''render'' = JUndefined"
    "own_property [(''render'', JNull)] ''render'' = JNull"
    by (simp_all add: own_property_def)
  have s: "(''resources'', ''#resources'') \<in> set sectionsToCheck"
    by (simp add: sectionsToCheck_def)
  have l: "loaded sample_server ''resources'' = JNull"
    by (simp add: loaded_def sample_server_def content_url_def)
  note v = visibility_rule [OF q, of "JObj [(''title'', JStr ''Resources''), (''render'', JBool False)]"]
  from v l have c: "document (check_section sample_server (''resources'', ''#resources'') sample_world)
      = document sample_world"
    by blast
  from v r u q s l c show ?thesis
    by (simp add: sample_page_def sample_world_def)
qed

lemma formatDate_undeclared: "formatDate date = Inl (ReferenceError ''formatDate is not defined'')"
  by (simp add: formatDate_def resolve_def createCard_scope_def loader_scope_def page_scope_def)

lemma optional_string_cases:
  assumes "optional is_string v"
  obtains "v = JUndefined" | s where "v = JStr s"
  using assms by (cases v) (simp_all add: optional_def is_string_def)

lemma truthy_optional_string: "optional is_string v \<Longrightarrow> truthy v = (text_of v \<noteq> [])"
  by (erule optional_string_cases) (simp_all add: text_of_def)

lemma to_string_optional_string:
  "optional is_string v \<Longrightarrow> text_of v \<noteq> [] \<Longrightarrow> to_string v = Inr (text_of v)"
  by (erule optional_string_cases) (simp_all add: text_of_def)

lemma to_string_or_else:
  "optional is_string v \<Longrightarrow>
   to_string (or_else v (JStr d)) = Inr (if text_of v = [] then d else text_of v)"
  by (erule optional_string_cases) (simp_all add: text_of_def or_else_def)

lemma appendTags_strings:
  "list_all is_string tags \<Longrightarrow>
   appendTags tags cardHTML = Inr (cardHTML @ concat (map tag_badge tags))"
proof (induction tags arbitrary: cardHTML)
  case Nil
  show ?case by simp
next
  case (Cons t ts)
  from Cons.prems have st: "is_string t" and ts: "list_all is_string ts" by simp_all
  from st obtain s where s: "t = JStr s"
    by (cases t) (simp_all add: is_string_def)
  show ?case
    by (simp add: s Cons.IH [OF ts] tag_badge_def badge_open_def text_of_def)
qed

lemma createCard_card_item:
  assumes "card_item item"
  shows "createCard item cardType
     = (if cardType = ''blog'' \<and> has_date item
        then Inl (ReferenceError ''formatDate is not defined'')
        else Inr \<lparr>className = ''card '' @ cardType @ ''-card'', innerHTML = card_markup item\<rparr>)"
proof -
  from assms obtain kvs where k: "item = JObj kvs"
    and t: "optional is_string (own_property kvs ''title'')"
    and d: "optional is_string (own_property kvs ''description'')"
    and dt: "optional is_string (own_property kvs ''date'')"
    and tg: "optional is_string_array (own_property kvs ''tags'')"
    and ct: "optional is_cta (own_property kvs ''cta'')"
    by (cases item) (simp_all add: card_item_def)
  note str = truthy_optional_string to_string_optional_string to_string_or_else
  from tg consider "own_property kvs ''tags'' = JUndefined"
    | ts where "own_property kvs ''tags'' = JArr ts" "list_all is_string ts"
    by (auto simp: optional_def is_string_array_def split: jsval.splits)
  then show ?thesis
  proof cases
    case 1
    from ct consider "own_property kvs ''cta'' = JUndefined"
      | c where "own_property kvs ''cta'' = JObj c" "optional is_string (own_property c ''text'')"
          "optional is_string (own_property c ''link'')"
      by (auto simp: optional_def is_cta_def split: jsval.splits)
    then show ?thesis
    proof cases
      case 1
      with \<open>own_property kvs ''tags'' = JUndefined\<close> t d dt show ?thesis
        by (simp add: k createCard_def and_then_def Let_def str formatDate_undeclared has_date_def
            field_of_def card_markup_def title_markup_def description_markup_def tag_row_def
            action_link_def text_of_def)
    next
      case 2
      with \<open>own_property kvs ''tags'' = JUndefined\<close> t d dt show ?thesis
        by (simp add: k createCard_def and_then_def Let_def str formatDate_undeclared has_date_def
            field_of_def card_markup_def title_markup_def description_markup_def tag_row_def
            action_link_def)
    qed
  next
    case 2
    note tags = 2
    from ct consider "own_property kvs ''cta'' = JUndefined"
      | c where "own_property kvs ''cta'' = JObj c" "optional is_string (own_property c ''text'')"
          "optional is_string (own_property c ''link'')"
      by (auto simp: optional_def is_cta_def split: jsval.splits)
    then show ?thesis
    proof cases
      case 1
      with tags t d dt show ?thesis
        by (simp add: k createCard_def and_then_def Let_def str formatDate_undeclared has_date_def
            field_of_def card_markup_def title_markup_def description_markup_def tag_row_def
            action_link_def text_of_def appendTags_strings)
    next
      case 2
      with tags t d dt show ?thesis
        by (simp add: k createCard_def and_then_def Let_def str formatDate_undeclared has_date_def
            field_of_def card_markup_def title_markup_def description_markup_def tag_row_def
            action_link_def appendTags_strings)
    qed
  qed
qed

lemma appendChild_elements:
  "elements pg c = Some old \<Longrightarrow>
   appendChild c el pg = pg\<lparr>elements := (elements pg)(c \<mapsto> old @ [Child el])\<rparr>"
  by (simp add: appendChild_def)

lemma appendCards_card_items:
  assumes "list_all card_item xs" and "cardType \<noteq> ''blog'' \<or> \<not> list_ex has_date xs"
    and "elements pg c = Some old"
  shows "appendCards xs cardType c pg
     = (None, pg\<lparr>elements := (elements pg)
          (c \<mapsto> old @ map (\<lambda>x. Child \<lparr>className = ''card '' @ cardType @ ''-card'',
                                       innerHTML = card_markup x\<rparr>) xs)\<rparr>)"
  using assms
proof (induction xs arbitrary: pg old)
  case Nil
  then have "(elements pg)(c \<mapsto> old) = elements pg"
    by (simp add: map_upd_triv)
  then show ?case by simp
next
  case (Cons x xs)
  define el where "el = \<lparr>className = ''card '' @ cardType @ ''-card'', innerHTML = card_markup x\<rparr>"
  define pg1 where "pg1 = appendChild c el pg"
  from Cons.prems(1) have x: "card_item x" and xs: "list_all card_item xs" by simp_all
  from Cons.prems(2) have nd: "\<not> (cardType = ''blog'' \<and> has_date x)"
    and nds: "cardType \<noteq> ''blog'' \<or> \<not> list_ex has_date xs" by auto
  from createCard_card_item [OF x, of cardType] nd
  have el: "createCard x cardType = Inr el" by (simp add: el_def)
  have pg1: "pg1 = pg\<lparr>elements := (elements pg)(c \<mapsto> old @ [Child el])\<rparr>"
    unfolding pg1_def using Cons.prems(3) by (rule appendChild_elements)
  then have e1: "elements pg1 c = Some (old @ [Child el])" by simp
  have "appendCards (x # xs) cardType c pg = appendCards xs cardType c pg1"
    by (simp add: el pg1_def)
  also note Cons.IH [OF xs nds e1]
  finally have r: "appendCards (x # xs) cardType c pg
      = (None, pg1\<lparr>elements := (elements pg1)
           (c \<mapsto> (old @ [Child el]) @ map (\<lambda>x. Child \<lparr>className = ''card '' @ cardType @ ''-card'',
                                                     innerHTML = card_markup x\<rparr>) xs)\<rparr>)" .
  show ?case unfolding r by (cases pg) (auto simp: pg1 el_def fun_upd_def fun_eq_iff)
qed

lemma renderCards_card_items:
  assumes "querySelector pg selector = Some c" and "list_all card_item xs"
    and "cardType \<noteq> ''blog'' \<or> \<not> list_ex has_date xs"
  shows "renderCards (JArr xs) selector cardType pg
     = (None, pg\<lparr>elements := (elements pg)
          (c \<mapsto> map (\<lambda>x. Child \<lparr>className = ''card '' @ cardType @ ''-card'',
                                 innerHTML = card_markup x\<rparr>) xs)\<rparr>)"
proof -
  let ?pg1 = "set_innerHTML c [] pg"
  have "elements ?pg1 c = Some []" by (simp add: set_innerHTML_def)
  from appendCards_card_items [OF assms(2,3) this] assms(1) show ?thesis
    by (simp add: renderCards_def set_innerHTML_def)
qed

lemma sample_items_card_items: "list_all card_item [plain_service, anxiety_post]"
  by (simp add: card_item_def plain_service_def anxiety_post_def own_property_def optional_def
      is_string_def is_string_array_def is_cta_def)

lemma anxiety_post_card_item: "card_item anxiety_post"
  using sample_items_card_items by simp

lemma anxiety_post_has_date: "has_date anxiety_post"
  by (simp add: has_date_def field_of_def text_of_def anxiety_post_def own_property_def)

lemma anxiety_post_markup:
  \<open>card_markup anxiety_post
   = ''<h3>Understanding Anxiety</h3><p>Anxiety is a normal emotion...</p>''
     @ ''<div class="card-tags"><span class="badge badge-primary">Mental Health</span> ''
     @ ''<span class="badge badge-primary">Anxiety</span> </div>''
     @ ''<a href="/blog/understanding-anxiety" class="btn btn-primary">Read Full Article</a>''\<close>
  by (simp add: card_markup_def title_markup_def description_markup_def tag_row_def tag_badge_def
      action_link_def field_of_def text_of_def anxiety_post_def own_property_def)

lemma plain_service_markup:
  "card_markup plain_service = ''<h3>Individual Therapy</h3><p>One-on-one therapy sessions...</p>''"
  by (simp add: card_markup_def title_markup_def description_markup_def tag_row_def tag_badge_def
      action_link_def field_of_def text_of_def plain_service_def own_property_def)

text \<open>
  Claim C2. \<open>createCard\<close> makes the date block of a blog card with a call of \<open>formatDate\<close>,
  a name that nothing in the scripts declares. So for every card item that has a date,
  the card of kind \<open>blog\<close> is not made: \<open>createCard\<close> throws a \<open>ReferenceError\<close>, and
  \<open>renderCards\<close>, given a list that starts with the item, throws it after it has cleared
  the container, which stays empty. For any other kind the card of the same item is
  made, and its markup starts with the title: the templates put no date block in it.
\<close>

theorem dated_blog_card_throws:
  assumes "card_item item" and "has_date item"
  shows "createCard item ''blog'' = Inl (ReferenceError ''formatDate is not defined'')
   \<and> (\<forall>pg selector container rest. querySelector pg selector = Some container \<longrightarrow>
         renderCards (JArr (item # rest)) selector ''blog'' pg
         = (Some (ReferenceError ''formatDate is not defined''),
            pg\<lparr>elements := (elements pg)(container \<mapsto> [])\<rparr>))
   \<and> (\<forall>cardType. cardType \<noteq> ''blog'' \<longrightarrow>
         createCard item cardType
         = Inr \<lparr>className = ''card '' @ cardType @ ''-card'',
                innerHTML = title_markup item @ description_markup item @ tag_row item
                            @ action_link item\<rparr>)"
proof -
  from createCard_card_item [OF assms(1), of "''blog''"] assms(2)
  have 1: "createCard item ''blog'' = Inl (ReferenceError ''formatDate is not defined'')"
    by simp
  have 2: "\<forall>pg selector container rest. querySelector pg selector = Some container \<longrightarrow>
         renderCards (JArr (item # rest)) selector ''blog'' pg
         = (Some (ReferenceError ''formatDate is not defined''),
            pg\<lparr>elements := (elements pg)(container \<mapsto> [])\<rparr>)"
    by (simp add: renderCards_def set_innerHTML_def 1)
  have 3: "\<forall>cardType. cardType \<noteq> ''blog'' \<longrightarrow>
         createCard item cardType
         = Inr \<lparr>className = ''card '' @ cardType @ ''-card'',
                innerHTML = title_markup item @ description_markup item @ tag_row item
                            @ action_link item\<rparr>"
    by (simp add: createCard_card_item [OF assms(1)] card_markup_def)
  from 1 2 3 show ?thesis by (intro conjI)
qed

theorem dated_blog_card_throws_witness:
  \<open>card_item anxiety_post
   \<and> has_date anxiety_post
   \<and> field_of anxiety_post ''date'' = JStr ''2026-01-15''
   \<and> createCard anxiety_post ''blog'' = Inl (ReferenceError ''formatDate is not defined'')
   \<and> querySelector blog_page ''#blog-grid'' = Some ''blog-grid''
   \<and> renderCards (JArr [anxiety_post]) ''#blog-grid'' ''blog'' blog_page
       = (Some (ReferenceError ''formatDate is not defined''),
          blog_page\<lparr>elements := (elements blog_page)(''blog-grid'' \<mapsto> [])\<rparr>)
   \<and> createCard anxiety_post ''service''
       = Inr \<lparr>className = ''card service-card'',
              innerHTML =
                ''<h3>Understanding Anxiety</h3><p>Anxiety is a normal emotion...</p>''
                @ ''<div class="card-tags"><span class="badge badge-primary">Mental Health</span> ''
                @ ''<span class="badge badge-primary">Anxiety</span> </div>''
                @ ''<a href="/blog/understanding-anxiety" class="btn btn-primary">Read Full Article</a>''\<rparr>\<close>
proof -
  note t = dated_blog_card_throws [OF anxiety_post_card_item anxiety_post_has_date]
  have q: "querySelector blog_page ''#blog-grid'' = Some ''blog-grid''"
    by (simp add: querySelector_def blog_page_def)
  have d: "field_of anxiety_post ''date'' = JStr ''2026-01-15''"
    by (simp add: field_of_def anxiety_post_def own_property_def)
  note 1 = t [THEN conjunct1]
  note 2 = t [THEN conjunct2, THEN conjunct1, rule_format, OF q, of "[]"]
  have ne: "''service'' \<noteq> ''blog''" by simp
  note 3 = t [THEN conjunct2, THEN conjunct2, rule_format, OF ne]
  have m: "title_markup anxiety_post @ description_markup anxiety_post
      @ tag_row anxiety_post @ action_link anxiety_post = card_markup anxiety_post"
    by (simp add: card_markup_def)
  show ?thesis
    unfolding 1 2 3 m anxiety_post_markup d q
    using anxiety_post_card_item anxiety_post_has_date by simp
qed

lemma markup_service_card_item: "card_item markup_service"
  by (simp add: card_item_def markup_service_def own_property_def optional_def is_string_def)

text \<open>
  Claim C8, as amended. For every list of N card items and every existing container,
  when the card kind is not \<open>blog\<close> or no item has a date, \<open>renderCards\<close> throws nothing and
  leaves in the container exactly N cards, one for each item in the order of the
  list, whatever the container held before; the rest of the page is unchanged. The
  markup of each card is the title, the description if present, the row of tag badges
  if the item has a \<open>tags\<close> field, and the action link if the call-to-action has a
  label, with the text of the item inserted as it is. So the templates add no row of
  tag badges for an item without tags and no action link for an item without
  call-to-action.
\<close>

theorem renderCards_markup_per_item:
  assumes "querySelector pg selector = Some container" and "list_all card_item xs"
    and "cardType \<noteq> ''blog'' \<or> \<not> list_ex has_date xs"
  shows "renderCards (JArr xs) selector cardType pg
         = (None, pg\<lparr>elements := (elements pg)
              (container \<mapsto> map (\<lambda>x. Child \<lparr>className = ''card '' @ cardType @ ''-card'',
                                             innerHTML = title_markup x @ description_markup x
                                                         @ tag_row x @ action_link x\<rparr>) xs)\<rparr>)
   \<and> (\<forall>i < length xs.
         createCard (xs ! i) cardType
         = Inr \<lparr>className = ''card '' @ cardType @ ''-card'',
                innerHTML = title_markup (xs ! i) @ description_markup (xs ! i)
                            @ tag_row (xs ! i) @ action_link (xs ! i)\<rparr>
         \<and> (field_of (xs ! i) ''tags'' = JUndefined \<longrightarrow> tag_row (xs ! i) = [])
         \<and> (field_of (xs ! i) ''cta'' = JUndefined \<longrightarrow> action_link (xs ! i) = []))"
proof -
  have 1: "renderCards (JArr xs) selector cardType pg
         = (None, pg\<lparr>elements := (elements pg)
              (container \<mapsto> map (\<lambda>x. Child \<lparr>className = ''card '' @ cardType @ ''-card'',
                                             innerHTML = title_markup x @ description_markup x
                                                         @ tag_row x @ action_link x\<rparr>) xs)\<rparr>)"
    using renderCards_card_items [OF assms] by (simp only: card_markup_def)
  have 2: "\<forall>i < length xs.
         createCard (xs ! i) cardType
         = Inr \<lparr>className = ''card '' @ cardType @ ''-card'',
                innerHTML = title_markup (xs ! i) @ description_markup (xs ! i)
                            @ tag_row (xs ! i) @ action_link (xs ! i)\<rparr>
         \<and> (field_of (xs ! i) ''tags'' = JUndefined \<longrightarrow> tag_row (xs ! i) = [])
         \<and> (field_of (xs ! i) ''cta'' = JUndefined \<longrightarrow> action_link (xs ! i) = [])"
  proof (intro allI impI conjI)
    fix i assume i: "i < length xs"
    then have m: "xs ! i \<in> set xs" by simp
    with assms(2) have ci: "card_item (xs ! i)" by (simp add: list_all_iff)
    from assms(3) m have "\<not> (cardType = ''blog'' \<and> has_date (xs ! i))"
      by (auto simp: list_ex_iff)
    with createCard_card_item [OF ci, of cardType]
    show "createCard (xs ! i) cardType
         = Inr \<lparr>className = ''card '' @ cardType @ ''-card'',
                innerHTML = title_markup (xs ! i) @ description_markup (xs ! i)
                            @ tag_row (xs ! i) @ action_link (xs ! i)\<rparr>"
      by (simp add: card_markup_def)
  next
    fix i assume "field_of (xs ! i) ''tags'' = JUndefined"
    then show "tag_row (xs ! i) = []" by (simp add: tag_row_def)
  next
    fix i assume "field_of (xs ! i) ''cta'' = JUndefined"
    then show "action_link (xs ! i) = []" by (simp add: action_link_def field_of_def text_of_def)
  qed
  from 1 2 show ?thesis by (rule conjI)
qed

theorem renderCards_markup_per_item_witness:
  \<open>querySelector sample_page ''#services-grid'' = Some ''services-grid''
   \<and> list_all card_item [plain_service, anxiety_post]
   \<and> renderCards (JArr [plain_service, anxiety_post]) ''#services-grid'' ''service'' sample_page
       = (None, sample_page\<lparr>elements := (elements sample_page)
            (''services-grid'' \<mapsto>
               [Child \<lparr>className = ''card service-card'',
                       innerHTML = ''<h3>Individual Therapy</h3><p>One-on-one therapy sessions...</p>''\<rparr>,
                Child \<lparr>className = ''card service-card'',
                       innerHTML =
                         ''<h3>Understanding Anxiety</h3><p>Anxiety is a normal emotion...</p>''
                         @ ''<div class="card-tags"><span class="badge badge-primary">Mental Health</span> ''
                         @ ''<span class="badge badge-primary">Anxiety</span> </div>''
                         @ ''<a href="/blog/understanding-anxiety" class="btn btn-primary">Read Full Article</a>''\<rparr>])\<rparr>)
   \<and> field_of plain_service ''tags'' = JUndefined
   \<and> field_of plain_service ''cta'' = JUndefined
   \<and> tag_row plain_service = []
   \<and> action_link plain_service = []
   \<and> querySelector blog_page ''#blog-grid'' = Some ''blog-grid''
   \<and> \<not> list_ex has_date [plain_service]
   \<and> renderCards (JArr [plain_service]) ''#blog-grid'' ''blog'' blog_page
       = (None, blog_page\<lparr>elements := (elements blog_page)
            (''blog-grid'' \<mapsto>
               [Child \<lparr>className = ''card blog-card'',
                       innerHTML = ''<h3>Individual Therapy</h3><p>One-on-one therapy sessions...</p>''\<rparr>])\<rparr>)\<close>
proof -
  have q: "querySelector sample_page ''#services-grid'' = Some ''services-grid''"
    by (simp add: querySelector_def sample_page_def)
  have kind: "''service'' \<noteq> ''blog'' \<or> \<not> list_ex has_date [plain_service, anxiety_post]"
    by simp
  note s = renderCards_markup_per_item [OF q sample_items_card_items kind]
  have qb: "querySelector blog_page ''#blog-grid'' = Some ''blog-grid''"
    by (simp add: querySelector_def blog_page_def)
  have ci: "list_all card_item [plain_service]"
    using sample_items_card_items by simp
  have nd: "\<not> list_ex has_date [plain_service]"
    by (simp add: has_date_def field_of_def text_of_def plain_service_def own_property_def)
  then have kindb: "''blog'' \<noteq> ''blog'' \<or> \<not> list_ex has_date [plain_service]" by simp
  note b = renderCards_markup_per_item [OF qb ci kindb]
  have u: "field_of plain_service ''tags'' = JUndefined" "field_of plain_service ''cta'' = JUndefined"
    by (simp_all add: field_of_def plain_service_def own_property_def)
  have i0: "0 < length [plain_service, anxiety_post]" by simp
  from s [THEN conjunct2, rule_format, OF i0] u
  have e: "tag_row plain_service = []" "action_link plain_service = []"
    by simp_all
  have mp: "title_markup plain_service @ description_markup plain_service
      @ tag_row plain_service @ action_link plain_service = card_markup plain_service"
    by (simp add: card_markup_def)
  have ma: "title_markup anxiety_post @ description_markup anxiety_post
      @ tag_row anxiety_post @ action_link anxiety_post = card_markup anxiety_post"
    by (simp add: card_markup_def)
  have rs: "renderCards (JArr [plain_service, anxiety_post]) ''#services-grid'' ''service'' sample_page
       = (None, sample_page\<lparr>elements := (elements sample_page)
            (''services-grid'' \<mapsto>
               [Child \<lparr>className = ''card service-card'', innerHTML = card_markup plain_service\<rparr>,
                Child \<lparr>className = ''card service-card'', innerHTML = card_markup anxiety_post\<rparr>])\<rparr>)"
    using s [THEN conjunct1] by (simp add: card_markup_def)
  have rb: "renderCards (JArr [plain_service]) ''#blog-grid'' ''blog'' blog_page
       = (None, blog_page\<lparr>elements := (elements blog_page)
            (''blog-grid'' \<mapsto>
               [Child \<lparr>className = ''card blog-card'', innerHTML = card_markup plain_service\<rparr>])\<rparr>)"
    using b [THEN conjunct1] by (simp add: card_markup_def)
  show ?thesis
    unfolding rs rb anxiety_post_markup plain_service_markup
    using q sample_items_card_items u e qb nd by simp
qed

text \<open>
  Claim C8 as stated fails: a service without tags and without call-to-action whose
  description holds the markup of a badge and of a link gets a card whose \<open>innerHTML\<close>
  holds that markup, inside the paragraph of the description.
\<close>

theorem markup_in_description_counterexample:
  \<open>card_item markup_service
   \<and> field_of markup_service ''tags'' = JUndefined
   \<and> field_of markup_service ''cta'' = JUndefined
   \<and> createCard markup_service ''service''
       = Inr \<lparr>className = ''card service-card'',
              innerHTML =
                ''<h3>Group Therapy</h3><p><span class="badge badge-primary">New</span>''
                @ ''<a href="#contact" class="btn btn-primary">Join</a></p>''\<rparr>
   \<and> renderCards (JArr [markup_service]) ''#services-grid'' ''service'' sample_page
       = (None, sample_page\<lparr>elements := (elements sample_page)
            (''services-grid'' \<mapsto>
               [Child \<lparr>className = ''card service-card'',
                       innerHTML =
                         ''<h3>Group Therapy</h3><p><span class="badge badge-primary">New</span>''
                         @ ''<a href="#contact" class="btn btn-primary">Join</a></p>''\<rparr>])\<rparr>)\<close>
proof -
  have u: "field_of markup_service ''tags'' = JUndefined" "field_of markup_service ''cta'' = JUndefined"
    by (simp_all add: field_of_def markup_service_def own_property_def)
  have c: \<open>createCard markup_service ''service''
       = Inr \<lparr>className = ''card service-card'',
              innerHTML =
                ''<h3>Group Therapy</h3><p><span class="badge badge-primary">New</span>''
                @ ''<a href="#contact" class="btn btn-primary">Join</a></p>''\<rparr>\<close>
    by (simp add: createCard_def and_then_def Let_def or_else_def markup_service_def own_property_def)
  have q: "querySelector sample_page ''#services-grid'' = Some ''services-grid''"
    by (simp add: querySelector_def sample_page_def)
  have r: \<open>renderCards (JArr [markup_service]) ''#services-grid'' ''service'' sample_page
       = (None, sample_page\<lparr>elements := (elements sample_page)
            (''services-grid'' \<mapsto>
               [Child \<lparr>className = ''card service-card'',
                       innerHTML =
                         ''<h3>Group Therapy</h3><p><span class="badge badge-primary">New</span>''
                         @ ''<a href="#contact" class="btn btn-primary">Join</a></p>''\<rparr>])\<rparr>)\<close>
    unfolding renderCards_def q
    by (cases sample_page) (simp add: c set_innerHTML_def appendChild_def)
  from markup_service_card_item u c r show ?thesis by (intro conjI)
qed

lemma field_of_JObj: "field_of (JObj kvs) k = own_property kvs k"
  by (simp add: field_of_def)

lemma render_hero_hero_document:
  assumes "hero_document d"
  shows "render_hero d pg = (None, show_subtitle d pg)"
proof -
  from assms obtain kvs where k: "d = JObj kvs" and s: "optional is_string (own_property kvs ''subtitle'')"
    by (cases d) (simp_all add: hero_document_def)
  from s show ?thesis
    by (cases pg)
      (simp add: k render_hero_def show_subtitle_def field_of_def truthy_optional_string
        to_string_optional_string querySelector_def set_textContent_def)
qed

lemma renderText_text_document:
  assumes "text_document d"
  shows "renderText d (CHR ''#'' # c) pg = (None, show_text d c pg)"
proof -
  from assms obtain kvs where k: "d = JObj kvs"
    and t: "optional is_string (own_property kvs ''title'')"
    and b: "optional is_string (own_property kvs ''body'')"
    by (cases d) (simp_all add: text_document_def)
  from t b show ?thesis
    by (cases pg)
      (simp add: k renderText_def show_text_def text_markup_def field_of_def and_then_def
        truthy_optional_string to_string_optional_string querySelector_def set_innerHTML_def)
qed

lemma text_document_truthy: "text_document d \<Longrightarrow> truthy d"
  by (cases d) (simp_all add: text_document_def)

lemma render_services_card_document:
  assumes "card_document d"
  shows "render_services d pg = (None, show_cards d pg)"
proof -
  from assms obtain kvs where k: "d = JObj kvs" and o: "optional is_card_array (own_property kvs ''items'')"
    by (cases d) (simp_all add: card_document_def)
  from o consider "own_property kvs ''items'' = JUndefined"
    | xs where "own_property kvs ''items'' = JArr xs" "list_all card_item xs"
    by (auto simp: optional_def is_card_array_def split: jsval.splits)
  then show ?thesis
  proof cases
    case 1
    then show ?thesis by (simp add: k render_services_def show_cards_def field_of_def)
  next
    case 2
    show ?thesis
    proof (cases "elements pg ''services-grid''")
      case None
      then have "querySelector pg ''#services-grid'' = None" by (simp add: querySelector_def)
      with 2 None show ?thesis
        by (simp add: k render_services_def show_cards_def field_of_def renderCards_def)
    next
      case (Some old)
      then have q: "querySelector pg ''#services-grid'' = Some ''services-grid''"
        by (simp add: querySelector_def)
      have kind: "''service'' \<noteq> ''blog'' \<or> \<not> list_ex has_date xs" by simp
      from renderCards_card_items [OF q 2(2) kind] 2(1) Some show ?thesis
        by (simp add: k render_services_def show_cards_def field_of_def)
    qed
  qed
qed

lemma createResourceCard_resource_item:
  assumes "resource_item item"
  shows "createResourceCard item
     = Inr \<lparr>className = ''card resource-card'', innerHTML = resource_markup item\<rparr>"
proof -
  from assms obtain kvs where k: "item = JObj kvs"
    and t: "optional is_string (own_property kvs ''title'')"
    and d: "optional is_string (own_property kvs ''description'')"
    and ty: "optional is_string (own_property kvs ''type'')"
    and dl: "optional is_download (own_property kvs ''download'')"
    by (cases item) (simp_all add: resource_item_def)
  note str = truthy_optional_string to_string_optional_string to_string_or_else
  from dl consider "own_property kvs ''download'' = JUndefined"
    | c where "own_property kvs ''download'' = JObj c" "is_string (own_property c ''url'')"
        "optional is_string (own_property c ''filename'')"
    by (auto simp: optional_def is_download_def split: jsval.splits)
  then show ?thesis
  proof cases
    case 1
    with t d ty show ?thesis
      by (simp add: k createResourceCard_def and_then_def Let_def str field_of_def
          resource_markup_def title_markup_def description_markup_def type_badge_def
          download_link_def badge_open_def)
  next
    case 2
    from 2(2) obtain u where u: "own_property c ''url'' = JStr u"
      by (cases "own_property c ''url''") (simp_all add: is_string_def)
    from 2(1,3) u t d ty show ?thesis
      by (simp add: k createResourceCard_def and_then_def Let_def str field_of_def
          resource_markup_def title_markup_def description_markup_def type_badge_def
          download_link_def badge_open_def text_of_def)
  qed
qed

lemma appendResources_resource_items:
  assumes "list_all resource_item xs" and "elements pg c = Some old"
  shows "appendResources xs c pg
     = (None, pg\<lparr>elements := (elements pg)
          (c \<mapsto> old @ map (\<lambda>x. Child \<lparr>className = ''card resource-card'',
                                       innerHTML = resource_markup x\<rparr>) xs)\<rparr>)"
  using assms
proof (induction xs arbitrary: pg old)
  case Nil
  then have "(elements pg)(c \<mapsto> old) = elements pg"
    by (simp add: map_upd_triv)
  then show ?case by simp
next
  case (Cons x xs)
  define el where "el = \<lparr>className = ''card resource-card'', innerHTML = resource_markup x\<rparr>"
  define pg1 where "pg1 = appendChild c el pg"
  from Cons.prems(1) have x: "resource_item x" and xs: "list_all resource_item xs" by simp_all
  from createResourceCard_resource_item [OF x]
  have el: "createResourceCard x = Inr el" by (simp add: el_def)
  have pg1: "pg1 = pg\<lparr>elements := (elements pg)(c \<mapsto> old @ [Child el])\<rparr>"
    unfolding pg1_def using Cons.prems(2) by (rule appendChild_elements)
  then have e1: "elements pg1 c = Some (old @ [Child el])" by simp
  have "appendResources (x # xs) c pg = appendResources xs c pg1"
    by (simp add: el pg1_def)
  also note Cons.IH [OF xs e1]
  finally have r: "appendResources (x # xs) c pg
      = (None, pg1\<lparr>elements := (elements pg1)
           (c \<mapsto> (old @ [Child el]) @ map (\<lambda>x. Child \<lparr>className = ''card resource-card'',
                                                     innerHTML = resource_markup x\<rparr>) xs)\<rparr>)" .
  show ?case unfolding r by (cases pg) (auto simp: pg1 el_def fun_upd_def fun_eq_iff)
qed

lemma renderResources_resource_items:
  assumes "list_all resource_item xs"
  shows "renderResources (JArr xs) ''#resources-grid'' pg
     = (None, if elements pg ''resources-grid'' = None then pg
              else pg\<lparr>elements := (elements pg)
                     (''resources-grid'' \<mapsto> map (\<lambda>x. Child \<lparr>className = ''card resource-card'',
                                                             innerHTML = resource_markup x\<rparr>) xs)\<rparr>)"
proof (cases "elements pg ''resources-grid''")
  case None
  then show ?thesis by (simp add: renderResources_def querySelector_def)
next
  case (Some old)
  let ?pg1 = "set_innerHTML ''resources-grid'' [] pg"
  have "elements ?pg1 ''resources-grid'' = Some []" by (simp add: set_innerHTML_def)
  from appendResources_resource_items [OF assms this] Some show ?thesis
    by (simp add: renderResources_def querySelector_def set_innerHTML_def)
qed

lemma render_resources_resource_document:
  assumes "resource_document d"
  shows "render_resources d pg = (None, show_resources d pg)"
proof -
  from assms obtain kvs where k: "d = JObj kvs"
    and i: "optional text_document (own_property kvs ''intro'')"
    and o: "optional is_resource_array (own_property kvs ''items'')"
    by (cases d) (simp_all add: resource_document_def)
  define pg1 where "pg1 = (if own_property kvs ''intro'' = JUndefined then pg
                 else show_text (own_property kvs ''intro'') ''resources-intro'' pg)"
  have intro: "(if truthy (own_property kvs ''intro'')
      then renderText (own_property kvs ''intro'') ''#resources-intro'' pg else (None, pg)) = (None, pg1)"
  proof (cases "own_property kvs ''intro'' = JUndefined")
    case True
    then show ?thesis by (simp add: pg1_def)
  next
    case False
    with i have td: "text_document (own_property kvs ''intro'')" by (simp add: optional_def)
    from renderText_text_document [OF td, of "''resources-intro''" pg] text_document_truthy [OF td] False
    show ?thesis by (simp add: pg1_def)
  qed
  have rr: "render_resources d pg
      = (if truthy (own_property kvs ''items'')
         then renderResources (own_property kvs ''items'') ''#resources-grid'' pg1 else (None, pg1))"
    unfolding k render_resources_def by (simp add: intro)
  have sr: "show_resources d pg
      = (case own_property kvs ''items'' of
           JArr xs \<Rightarrow>
             if elements pg1 ''resources-grid'' = None then pg1
             else pg1\<lparr>elements := (elements pg1)
                    (''resources-grid'' \<mapsto>
                       map (\<lambda>x. Child \<lparr>className = ''card resource-card'',
                                       innerHTML = resource_markup x\<rparr>) xs)\<rparr>
         | _ \<Rightarrow> pg1)"
    unfolding k show_resources_def pg1_def field_of_JObj Let_def by (rule refl)
  from o consider "own_property kvs ''items'' = JUndefined"
    | xs where "own_property kvs ''items'' = JArr xs" "list_all resource_item xs"
    by (auto simp: optional_def is_resource_array_def split: jsval.splits)
  then show ?thesis
  proof cases
    case 1
    then show ?thesis unfolding rr sr by simp
  next
    case 2
    from 2(1) renderResources_resource_items [OF 2(2), of pg1] show ?thesis
      unfolding rr sr by simp
  qed
qed

lemma load_then_fst:
  "fst (load_then server others contentType render w)
   = fst (render (loaded server contentType) (others contentType (document w)))"
proof -
  obtain r w1 where l: "load server contentType w = (r, w1)" by (cases "load server contentType w")
  with load_fst [of server contentType w] load_document [of server contentType w]
  have "r = Inr (loaded server contentType)" "document w1 = document w" by simp_all
  with l show ?thesis by (simp add: load_then_def split: prod.splits)
qed

lemma load_then_document:
  "document (snd (load_then server others contentType render w))
   = snd (render (loaded server contentType) (others contentType (document w)))"
proof -
  obtain r w1 where l: "load server contentType w = (r, w1)" by (cases "load server contentType w")
  with load_fst [of server contentType w] load_document [of server contentType w]
  have "r = Inr (loaded server contentType)" "document w1 = document w" by simp_all
  with l show ?thesis by (simp add: load_then_def split: prod.splits)
qed

lemma load_then_fetched:
  "fetched (snd (load_then server others contentType render w)) = fetched w @ [content_url contentType]"
proof -
  obtain r w1 where l: "load server contentType w = (r, w1)" by (cases "load server contentType w")
  with load_fetched [of server contentType w]
  have "fetched w1 = fetched w @ [content_url contentType]" by simp
  with l show ?thesis by (simp add: load_then_def split: prod.splits sum.splits)
qed

lemma fst_None_pair: "fst p = None \<Longrightarrow> \<exists>b. p = (None, b)"
  by (cases p) simp

lemma try_steps_Cons_None: "fst (s w) = None \<Longrightarrow> try_steps (s # ss) w = try_steps ss (snd (s w))"
  by (cases "s w") simp

lemma try_steps_Cons_Some: "fst (s w) \<noteq> None \<Longrightarrow> try_steps (s # ss) w = s w"
  by (cases "s w") auto

lemma try_steps_append_None:
  "fst (try_steps xs w) = None \<Longrightarrow> try_steps (xs @ ys) w = try_steps ys (snd (try_steps xs w))"
proof (induction xs arbitrary: w)
  case Nil
  show ?case by simp
next
  case (Cons s xs)
  show ?case
  proof (cases "fst (s w) = None")
    case True
    with Cons.prems have "fst (try_steps xs (snd (s w))) = None"
      by (simp add: try_steps_Cons_None del: try_steps.simps)
    from Cons.IH [OF this] True show ?thesis
      by (simp add: try_steps_Cons_None del: try_steps.simps)
  next
    case False
    with Cons.prems show ?thesis
      by (simp add: try_steps_Cons_Some del: try_steps.simps)
  qed
qed

lemma second_pass_types_sections: "second_pass_types = map fst second_pass_sections"
  by (simp add: second_pass_types_def second_pass_sections_def)

lemma second_pass_length: "length (second_pass server others) = length second_pass_types"
  by (simp add: second_pass_def second_pass_types_sections)

lemma second_pass_nth:
  "k < length second_pass_types \<Longrightarrow>
   second_pass server others ! k
   = load_then server others (second_pass_types ! k) (snd (second_pass_sections ! k))"
  by (simp add: second_pass_def second_pass_types_sections split_def)

lemma second_pass_cases:
  assumes "k < length second_pass_types"
  obtains "k = 0" | "k = 1" | "k = 2" | "k = 3" | "k = 4" | "k = 5"
proof -
  from assms have "k < 6" by (simp add: second_pass_types_def)
  then have "k = 0 \<or> k = 1 \<or> k = 2 \<or> k = 3 \<or> k = 4 \<or> k = 5" by arith
  with that show ?thesis by blast
qed

lemma render_text_section:
  assumes "text_document d"
  shows "(if truthy d then renderText d (CHR ''#'' # c) pg else (None, pg)) = (None, show_text d c pg)"
  using renderText_text_document [OF assms] text_document_truthy [OF assms] by simp

lemma section_shown:
  assumes "k < length second_pass_types" and "d = JNull \<or> well_formed (second_pass_types ! k) d"
  shows "snd (second_pass_sections ! k) d pg = (None, shown (second_pass_types ! k) d pg)"
proof (cases "d = JNull")
  case True
  from assms(1) show ?thesis
    by (rule second_pass_cases)
      (simp_all add: True second_pass_sections_def shown_def render_hero_def render_about_def
        render_services_def render_resources_def render_booking_def render_contact_def)
next
  case False
  with assms(2) have wf: "well_formed (second_pass_types ! k) d" by simp
  from assms(1) show ?thesis
  proof (rule second_pass_cases)
    assume k: "k = 0"
    with wf have "hero_document d" by (simp add: second_pass_types_def well_formed_def)
    from render_hero_hero_document [OF this] False show ?thesis
      by (simp add: k second_pass_sections_def second_pass_types_def shown_def)
  next
    assume k: "k = 1"
    with wf have "text_document d" by (simp add: second_pass_types_def well_formed_def)
    from render_text_section [OF this] False show ?thesis
      by (simp add: k second_pass_sections_def second_pass_types_def shown_def render_about_def)
  next
    assume k: "k = 2"
    with wf have "card_document d" by (simp add: second_pass_types_def well_formed_def)
    from render_services_card_document [OF this] False show ?thesis
      by (simp add: k second_pass_sections_def second_pass_types_def shown_def)
  next
    assume k: "k = 3"
    with wf have "resource_document d" by (simp add: second_pass_types_def well_formed_def)
    from render_resources_resource_document [OF this] False show ?thesis
      by (simp add: k second_pass_sections_def second_pass_types_def shown_def)
  next
    assume k: "k = 4"
    with wf have "text_document d" by (simp add: second_pass_types_def well_formed_def)
    from render_text_section [OF this] False show ?thesis
      by (simp add: k second_pass_sections_def second_pass_types_def shown_def render_booking_def)
  next
    assume k: "k = 5"
    with wf have "text_document d" by (simp add: second_pass_types_def well_formed_def)
    from render_text_section [OF this] False show ?thesis
      by (simp add: k second_pass_sections_def second_pass_types_def shown_def render_contact_def)
  qed
qed

lemma steps_fetched:
  "fst (try_steps (map (\<lambda>(contentType, render). load_then server others contentType render) secs) w) = None
   \<Longrightarrow> fetched (snd (try_steps (map (\<lambda>(contentType, render). load_then server others contentType render) secs) w))
       = fetched w @ map content_url (map fst secs)"
proof (induction secs arbitrary: w)
  case Nil
  show ?case by simp
next
  case (Cons s secs)
  obtain ct r where s: "s = (ct, r)" by (cases s)
  let ?step = "load_then server others ct r"
  let ?rest = "map (\<lambda>(contentType, render). load_then server others contentType render) secs"
  have ok: "fst (?step w) = None"
  proof (rule ccontr)
    assume "fst (?step w) \<noteq> None"
    with Cons.prems show False
      by (simp add: s try_steps_Cons_Some del: try_steps.simps)
  qed
  then have t: "try_steps (?step # ?rest) w = try_steps ?rest (snd (?step w))"
    by (rule try_steps_Cons_None)
  with Cons.prems have "fst (try_steps ?rest (snd (?step w))) = None"
    by (simp add: s del: try_steps.simps)
  from Cons.IH [OF this] show ?case
    by (simp add: s t load_then_fetched del: try_steps.simps)
qed

lemma steps_shown:
  assumes "\<forall>s \<in> set secs. \<forall>pg. snd s (loaded server (fst s)) pg = (None, shown (fst s) (loaded server (fst s)) pg)"
  shows "fst (try_steps (map (\<lambda>(contentType, render). load_then server others contentType render) secs) w) = None
   \<and> document (snd (try_steps (map (\<lambda>(contentType, render). load_then server others contentType render) secs) w))
       = foldl (\<lambda>pg contentType. shown contentType (loaded server contentType) (others contentType pg))
           (document w) (map fst secs)"
  using assms
proof (induction secs arbitrary: w)
  case Nil
  show ?case by simp
next
  case (Cons s secs)
  obtain ct r where s: "s = (ct, r)" by (cases s)
  let ?step = "load_then server others ct r"
  let ?rest = "map (\<lambda>(contentType, render). load_then server others contentType render) secs"
  from Cons.prems have r: "\<And>pg. r (loaded server ct) pg = (None, shown ct (loaded server ct) pg)"
    and rest: "\<forall>s \<in> set secs. \<forall>pg. snd s (loaded server (fst s)) pg = (None, shown (fst s) (loaded server (fst s)) pg)"
    by (simp_all add: s)
  have ok: "fst (?step w) = None" by (simp add: load_then_fst r)
  then have t: "try_steps (?step # ?rest) w = try_steps ?rest (snd (?step w))"
    by (rule try_steps_Cons_None)
  have d: "document (snd (?step w)) = shown ct (loaded server ct) (others ct (document w))"
    by (simp add: load_then_document r)
  from Cons.IH [OF rest, of "snd (?step w)"] show ?case
    by (simp add: s t d del: try_steps.simps)
qed

lemma second_pass_take:
  "take k (second_pass server others)
   = map (\<lambda>(contentType, render). load_then server others contentType render) (take k second_pass_sections)"
  by (simp add: second_pass_def take_map)

lemma second_pass_stops:
  assumes k: "k < length second_pass_types"
    and ok: "fst (try_steps (take k (second_pass server others)) w) = None"
    and thrown: "fst ((second_pass server others ! k) (snd (try_steps (take k (second_pass server others)) w))) \<noteq> None"
  shows "ContentLoader_init server others w
         = (snd ((second_pass server others ! k) (snd (try_steps (take k (second_pass server others)) w))))
             \<lparr>errors_logged :=
                errors_logged (snd ((second_pass server others ! k)
                                 (snd (try_steps (take k (second_pass server others)) w))))
                @ [''Error initializing content loader:'']\<rparr>"
    and "fetched (ContentLoader_init server others w)
         = fetched w @ map content_url (take (Suc k) second_pass_types)"
proof -
  define S where "S = second_pass server others"
  define w1 where "w1 = snd (try_steps (take k S) w)"
  define w2 where "w2 = snd ((S ! k) w1)"
  from k have kS: "k < length S" by (simp add: S_def second_pass_length)
  then have split: "S = take k S @ S ! k # drop (Suc k) S"
    by (rule id_take_nth_drop)
  from ok have ok': "fst (try_steps (take k S) w) = None" by (simp add: S_def)
  from thrown have thrown': "fst ((S ! k) w1) \<noteq> None" by (simp add: S_def w1_def)
  have "try_steps S w = try_steps (take k S @ S ! k # drop (Suc k) S) w"
    using split by simp
  also have "\<dots> = try_steps (S ! k # drop (Suc k) S) w1"
    unfolding w1_def using ok' by (rule try_steps_append_None)
  also have "\<dots> = (S ! k) w1"
    using thrown' by (rule try_steps_Cons_Some)
  finally have t: "try_steps S w = (S ! k) w1" .
  from thrown' obtain e where e: "(S ! k) w1 = (Some e, w2)"
    unfolding w2_def by (cases "(S ! k) w1") auto
  have i: "ContentLoader_init server others w
      = w2\<lparr>errors_logged := errors_logged w2 @ [''Error initializing content loader:'']\<rparr>"
    using t e by (simp add: ContentLoader_init_def S_def)
  then show "ContentLoader_init server others w
         = (snd ((second_pass server others ! k) (snd (try_steps (take k (second_pass server others)) w))))
             \<lparr>errors_logged :=
                errors_logged (snd ((second_pass server others ! k)
                                 (snd (try_steps (take k (second_pass server others)) w))))
                @ [''Error initializing content loader:'']\<rparr>"
    by (simp add: w2_def w1_def S_def)
  have f1: "fetched w1 = fetched w @ map content_url (take k second_pass_types)"
    using ok' steps_fetched [of server others "take k second_pass_sections" w]
    by (simp add: w1_def S_def second_pass_take second_pass_types_sections take_map)
  have f2: "fetched w2 = fetched w1 @ [content_url (second_pass_types ! k)]"
    by (simp add: w2_def S_def second_pass_nth [OF k] load_then_fetched)
  from k have "take (Suc k) second_pass_types = take k second_pass_types @ [second_pass_types ! k]"
    by (rule take_Suc_conv_app_nth)
  with i f1 f2 show "fetched (ContentLoader_init server others w)
         = fetched w @ map content_url (take (Suc k) second_pass_types)"
    by simp
qed

lemma second_pass_completes:
  assumes "fst (try_steps (second_pass server others) w) = None"
  shows "ContentLoader_init server others w = snd (try_steps (second_pass server others) w)"
    and "fetched (ContentLoader_init server others w) = fetched w @ map content_url second_pass_types"
proof -
  from assms have "\<exists>b. try_steps (second_pass server others) w = (None, b)"
    by (rule fst_None_pair)
  then obtain b where b: "try_steps (second_pass server others) w = (None, b)" ..
  then show i: "ContentLoader_init server others w = snd (try_steps (second_pass server others) w)"
    by (simp add: ContentLoader_init_def)
  from assms steps_fetched [of server others second_pass_sections w]
  show "fetched (ContentLoader_init server others w) = fetched w @ map content_url second_pass_types"
    unfolding i by (simp add: second_pass_def second_pass_types_sections)
qed

lemma section_step:
  assumes k: "k < length second_pass_types"
    and wf: "loaded server (second_pass_types ! k) = JNull
             \<or> well_formed (second_pass_types ! k) (loaded server (second_pass_types ! k))"
  shows "fst ((second_pass server others ! k) v) = None
     \<and> document (snd ((second_pass server others ! k) v))
         = shown (second_pass_types ! k) (loaded server (second_pass_types ! k))
             (others (second_pass_types ! k) (document v))
     \<and> fetched (snd ((second_pass server others ! k) v))
         = fetched v @ [content_url (second_pass_types ! k)]"
  by (simp add: second_pass_nth [OF k] load_then_fst load_then_document load_then_fetched
      section_shown [OF k wf])

lemma second_pass_well_formed:
  assumes "\<forall>contentType \<in> set second_pass_types.
     loaded server contentType = JNull \<or> well_formed contentType (loaded server contentType)"
  shows "fst (try_steps (second_pass server others) w) = None"
    and "document (snd (try_steps (second_pass server others) w))
         = foldl (\<lambda>pg contentType. shown contentType (loaded server contentType) (others contentType pg))
             (document w) second_pass_types"
proof -
  have "\<forall>s \<in> set second_pass_sections. \<forall>pg.
      snd s (loaded server (fst s)) pg = (None, shown (fst s) (loaded server (fst s)) pg)"
  proof (intro ballI allI)
    fix s pg
    assume "s \<in> set second_pass_sections"
    then obtain k where k: "k < length second_pass_sections" and s: "s = second_pass_sections ! k"
      by (auto simp: in_set_conv_nth)
    from k have k': "k < length second_pass_types" by (simp add: second_pass_types_sections)
    then have f: "fst (second_pass_sections ! k) = second_pass_types ! k"
      by (simp add: second_pass_types_sections)
    from k' have "second_pass_types ! k \<in> set second_pass_types" by simp
    with assms have "loaded server (second_pass_types ! k) = JNull
        \<or> well_formed (second_pass_types ! k) (loaded server (second_pass_types ! k))"
      by blast
    from section_shown [OF k' this, of pg]
    show "snd s (loaded server (fst s)) pg = (None, shown (fst s) (loaded server (fst s)) pg)"
      unfolding s f .
  qed
  from steps_shown [OF this, of others w]
  show "fst (try_steps (second_pass server others) w) = None"
    and "document (snd (try_steps (second_pass server others) w))
         = foldl (\<lambda>pg contentType. shown contentType (loaded server contentType) (others contentType pg))
             (document w) second_pass_types"
    by (simp_all add: second_pass_def second_pass_types_sections)
qed

text \<open>
  Claim C3, as amended. The second pass of \<open>init\<close> loads and renders the six sections
  hero, about, services, resources, booking and contact in this order inside a single
  \<open>try\<close> block. An exception thrown in a section ends the pass: \<open>init\<close> catches and logs
  it, the page stays as that section left it, and the sections after it are neither
  loaded nor rendered. A section whose load failed, so that its document is \<open>null\<close>, or
  whose document is well formed throws nothing: it requests its document, shows it in
  its container (nothing when it is \<open>null\<close>) and lets the pass go on. So when every
  document is \<open>null\<close> or well formed, all six sections are loaded, each document that
  loaded is shown, and \<open>init\<close> logs nothing of its own.
\<close>

theorem second_pass_in_one_try_block:
  "(\<forall>k < length second_pass_types.
      fst (try_steps (take k (second_pass server others)) w) = None
      \<and> fst ((second_pass server others ! k) (snd (try_steps (take k (second_pass server others)) w)))
          \<noteq> None
      \<longrightarrow> ContentLoader_init server others w
            = (snd ((second_pass server others ! k) (snd (try_steps (take k (second_pass server others)) w))))
                \<lparr>errors_logged :=
                   errors_logged (snd ((second_pass server others ! k)
                                    (snd (try_steps (take k (second_pass server others)) w))))
                   @ [''Error initializing content loader:'']\<rparr>
          \<and> fetched (ContentLoader_init server others w)
              = fetched w @ map content_url (take (Suc k) second_pass_types))
   \<and> (fst (try_steps (second_pass server others) w) = None
      \<longrightarrow> ContentLoader_init server others w = snd (try_steps (second_pass server others) w)
          \<and> fetched (ContentLoader_init server others w) = fetched w @ map content_url second_pass_types)
   \<and> (\<forall>k < length second_pass_types. \<forall>v.
        loaded server (second_pass_types ! k) = JNull
        \<or> well_formed (second_pass_types ! k) (loaded server (second_pass_types ! k))
        \<longrightarrow> fst ((second_pass server others ! k) v) = None
            \<and> document (snd ((second_pass server others ! k) v))
                = shown (second_pass_types ! k) (loaded server (second_pass_types ! k))
                    (others (second_pass_types ! k) (document v))
            \<and> fetched (snd ((second_pass server others ! k) v))
                = fetched v @ [content_url (second_pass_types ! k)])
   \<and> (\<forall>contentType pg. shown contentType JNull pg = pg)
   \<and> ((\<forall>contentType \<in> set second_pass_types.
          loaded server contentType = JNull \<or> well_formed contentType (loaded server contentType))
      \<longrightarrow> fst (try_steps (second_pass server others) w) = None
          \<and> ContentLoader_init server others w = snd (try_steps (second_pass server others) w)
          \<and> document (ContentLoader_init server others w)
              = foldl (\<lambda>pg contentType. shown contentType (loaded server contentType) (others contentType pg))
                  (document w) second_pass_types
          \<and> fetched (ContentLoader_init server others w) = fetched w @ map content_url second_pass_types)"
proof (intro conjI allI impI)
  fix k
  assume k: "k < length second_pass_types"
    and h: "fst (try_steps (take k (second_pass server others)) w) = None
      \<and> fst ((second_pass server others ! k) (snd (try_steps (take k (second_pass server others)) w)))
          \<noteq> None"
  from h have ok: "fst (try_steps (take k (second_pass server others)) w) = None"
    and thrown: "fst ((second_pass server others ! k) (snd (try_steps (take k (second_pass server others)) w)))
          \<noteq> None"
    by simp_all
  from second_pass_stops(1) [OF k ok thrown]
  show "ContentLoader_init server others w
            = (snd ((second_pass server others ! k) (snd (try_steps (take k (second_pass server others)) w))))
                \<lparr>errors_logged :=
                   errors_logged (snd ((second_pass server others ! k)
                                    (snd (try_steps (take k (second_pass server others)) w))))
                   @ [''Error initializing content loader:'']\<rparr>" .
  from second_pass_stops(2) [OF k ok thrown]
  show "fetched (ContentLoader_init server others w)
              = fetched w @ map content_url (take (Suc k) second_pass_types)" .
next
  assume n: "fst (try_steps (second_pass server others) w) = None"
  from second_pass_completes(1) [OF n]
  show "ContentLoader_init server others w = snd (try_steps (second_pass server others) w)" .
  from second_pass_completes(2) [OF n]
  show "fetched (ContentLoader_init server others w) = fetched w @ map content_url second_pass_types" .
next
  fix k v
  assume k: "k < length second_pass_types"
    and wf: "loaded server (second_pass_types ! k) = JNull
        \<or> well_formed (second_pass_types ! k) (loaded server (second_pass_types ! k))"
  note s = section_step [OF k wf, of others v]
  from s [THEN conjunct1] show "fst ((second_pass server others ! k) v) = None" .
  from s [THEN conjunct2, THEN conjunct1]
  show "document (snd ((second_pass server others ! k) v))
                = shown (second_pass_types ! k) (loaded server (second_pass_types ! k))
                    (others (second_pass_types ! k) (document v))" .
  from s [THEN conjunct2, THEN conjunct2]
  show "fetched (snd ((second_pass server others ! k) v))
                = fetched v @ [content_url (second_pass_types ! k)]" .
next
  fix contentType pg
  show "shown contentType JNull pg = pg" by (simp add: shown_def)
next
  assume wf: "\<forall>contentType \<in> set second_pass_types.
          loaded server contentType = JNull \<or> well_formed contentType (loaded server contentType)"
  from second_pass_well_formed(1) [OF wf]
  show n: "fst (try_steps (second_pass server others) w) = None" .
  from second_pass_completes(1) [OF n]
  show i: "ContentLoader_init server others w = snd (try_steps (second_pass server others) w)" .
  from second_pass_well_formed(2) [OF wf, of others w]
  show "document (ContentLoader_init server others w)
              = foldl (\<lambda>pg contentType. shown contentType (loaded server contentType) (others contentType pg))
                  (document w) second_pass_types"
    unfolding i .
  from second_pass_completes(2) [OF n]
  show "fetched (ContentLoader_init server others w) = fetched w @ map content_url second_pass_types" .
qed

lemma practice_server_documents:
  "loaded practice_server ''hero'' = JObj [(''subtitle'', JStr ''Welcome'')]"
  "loaded practice_server ''about'' = JNull"
  "loaded practice_server ''services'' = JObj [(''items'', JArr [plain_service, anxiety_post])]"
  "loaded practice_server ''resources'' = JNull"
  "loaded practice_server ''booking'' = JNull"
  "loaded practice_server ''contact'' = JObj [(''title'', JStr ''Contact''), (''body'', JStr ''Call us'')]"
  by (simp_all add: loaded_def practice_server_def sample_server_def content_url_def)

lemma practice_server_well_formed:
  "\<forall>contentType \<in> set second_pass_types.
     loaded practice_server contentType = JNull
     \<or> well_formed contentType (loaded practice_server contentType)"
  using sample_items_card_items
  by (simp add: second_pass_types_def practice_server_documents well_formed_def hero_document_def
      text_document_def card_document_def is_card_array_def optional_def is_string_def
      own_property_def)

lemma practice_server_shown:
  \<open>foldl (\<lambda>pg contentType. shown contentType (loaded practice_server contentType) (no_others contentType pg))
     sample_page second_pass_types
   = sample_page\<lparr>elements := (elements sample_page)
       (''hero-subtitle'' \<mapsto> [TextNode ''Welcome''],
        ''services-grid'' \<mapsto>
          [Child \<lparr>className = ''card service-card'', innerHTML = card_markup plain_service\<rparr>,
           Child \<lparr>className = ''card service-card'', innerHTML = card_markup anxiety_post\<rparr>],
        ''contact-content'' \<mapsto> [Markup ''<h3>Contact</h3><p>Call us</p>''])\<rparr>\<close>
  by (simp add: second_pass_types_def practice_server_documents no_others_def shown_def
      show_subtitle_def show_text_def show_cards_def text_markup_def field_of_def text_of_def
      own_property_def sample_page_def)

lemma load_errors_logged:
  "errors_logged (snd (load server contentType w))
   = errors_logged w
     @ (case server (content_url contentType) of
          NetworkFailure \<Rightarrow> [''Error loading content file: '' @ contentType]
        | Response ok body \<Rightarrow>
            if \<not> ok then [''Failed to load content: '' @ contentType]
            else (case body of None \<Rightarrow> [''Error loading content file: '' @ contentType] | Some d \<Rightarrow> []))"
  by (simp add: load_def load_try_def Let_def split: fetch_result.splits option.splits)

lemma load_then_errors_logged:
  "errors_logged (snd (load_then server others contentType render w))
   = errors_logged (snd (load server contentType w))"
proof -
  obtain r w1 where l: "load server contentType w = (r, w1)" by (cases "load server contentType w")
  with load_fst [of server contentType w] have "r = Inr (loaded server contentType)" by simp
  with l show ?thesis by (simp add: load_then_def split: prod.splits)
qed

lemma steps_errors_logged:
  "fst (try_steps (map (\<lambda>(contentType, render). load_then server others contentType render) secs) w) = None
   \<Longrightarrow> errors_logged (snd (try_steps (map (\<lambda>(contentType, render). load_then server others contentType render) secs) w))
       = errors_logged w
         @ concat (map (\<lambda>contentType.
             case server (content_url contentType) of
               NetworkFailure \<Rightarrow> [''Error loading content file: '' @ contentType]
             | Response ok body \<Rightarrow>
                 if \<not> ok then [''Failed to load content: '' @ contentType]
                 else (case body of None \<Rightarrow> [''Error loading content file: '' @ contentType]
                       | Some d \<Rightarrow> [])) (map fst secs))"
proof (induction secs arbitrary: w)
  case Nil
  show ?case by simp
next
  case (Cons s secs)
  obtain ct r where s: "s = (ct, r)" by (cases s)
  let ?step = "load_then server others ct r"
  let ?rest = "map (\<lambda>(contentType, render). load_then server others contentType render) secs"
  have ok: "fst (?step w) = None"
  proof (rule ccontr)
    assume "fst (?step w) \<noteq> None"
    with Cons.prems show False
      by (simp add: s try_steps_Cons_Some del: try_steps.simps)
  qed
  then have t: "try_steps (?step # ?rest) w = try_steps ?rest (snd (?step w))"
    by (rule try_steps_Cons_None)
  with Cons.prems have "fst (try_steps ?rest (snd (?step w))) = None"
    by (simp add: s del: try_steps.simps)
  from Cons.IH [OF this] show ?case
    by (simp add: s t load_then_errors_logged load_errors_logged del: try_steps.simps)
qed

theorem second_pass_in_one_try_block_witness:
  \<open>hero_document (loaded practice_server ''hero'')
   \<and> loaded practice_server ''about'' = JNull
   \<and> card_document (loaded practice_server ''services'')
   \<and> loaded practice_server ''resources'' = JNull
   \<and> loaded practice_server ''booking'' = JNull
   \<and> text_document (loaded practice_server ''contact'')
   \<and> document (ContentLoader_init practice_server no_others sample_world)
       = sample_page\<lparr>elements := (elements sample_page)
           (''hero-subtitle'' \<mapsto> [TextNode ''Welcome''],
            ''services-grid'' \<mapsto>
              [Child \<lparr>className = ''card service-card'',
                      innerHTML = ''<h3>Individual Therapy</h3><p>One-on-one therapy sessions...</p>''\<rparr>,
               Child \<lparr>className = ''card service-card'',
                      innerHTML =
                        ''<h3>Understanding Anxiety</h3><p>Anxiety is a normal emotion...</p>''
                        @ ''<div class="card-tags"><span class="badge badge-primary">Mental Health</span> ''
                        @ ''<span class="badge badge-primary">Anxiety</span> </div>''
                        @ ''<a href="/blog/understanding-anxiety" class="btn btn-primary">Read Full Article</a>''\<rparr>],
            ''contact-content'' \<mapsto> [Markup ''<h3>Contact</h3><p>Call us</p>''])\<rparr>
   \<and> fetched (ContentLoader_init practice_server no_others sample_world)
       = [''content/hero.json'', ''content/about.json'', ''content/services.json'',
          ''content/resources.json'', ''content/booking.json'', ''content/contact.json'']
   \<and> errors_logged (ContentLoader_init practice_server no_others sample_world)
       = [''Error loading content file: about'', ''Failed to load content: resources'',
          ''Error loading content file: booking'']
   \<and> fst (try_steps (take 2 (second_pass broken_services_server no_others)) sample_world) = None
   \<and> fst ((second_pass broken_services_server no_others ! 2)
            (snd (try_steps (take 2 (second_pass broken_services_server no_others)) sample_world)))
       = Some (TypeError ''item.tags.forEach is not a function'')
   \<and> fetched (ContentLoader_init broken_services_server no_others sample_world)
       = [''content/hero.json'', ''content/about.json'', ''content/services.json'']\<close>
proof -
  note th = second_pass_in_one_try_block [of practice_server no_others sample_world]
  note wf = practice_server_well_formed
  note all = th [THEN conjunct2, THEN conjunct2, THEN conjunct2, THEN conjunct2, THEN mp, OF wf]
  have d: "document (ContentLoader_init practice_server no_others sample_world)
      = foldl (\<lambda>pg contentType. shown contentType (loaded practice_server contentType) (no_others contentType pg))
          sample_page second_pass_types"
    using all [THEN conjunct2, THEN conjunct2, THEN conjunct1] by (simp add: sample_world_def)
  have f: "fetched (ContentLoader_init practice_server no_others sample_world)
      = [''content/hero.json'', ''content/about.json'', ''content/services.json'',
         ''content/resources.json'', ''content/booking.json'', ''content/contact.json'']"
    using all [THEN conjunct2, THEN conjunct2, THEN conjunct2]
    by (simp add: sample_world_def second_pass_types_def content_url_def)
  have e: "errors_logged (ContentLoader_init practice_server no_others sample_world)
      = [''Error loading content file: about'', ''Failed to load content: resources'',
         ''Error loading content file: booking'']"
    unfolding all [THEN conjunct2, THEN conjunct1]
    using steps_errors_logged [of practice_server no_others second_pass_sections sample_world]
      all [THEN conjunct1]
    by (simp add: second_pass_def second_pass_sections_def sample_world_def practice_server_def
        sample_server_def content_url_def)
  have w: "hero_document (loaded practice_server ''hero'')"
    "card_document (loaded practice_server ''services'')"
    "text_document (loaded practice_server ''contact'')"
    using wf by (simp_all add: second_pass_types_def practice_server_documents well_formed_def)
  have k: "2 < length second_pass_types" by (simp add: second_pass_types_def)
  have b1: "fst (try_steps (take 2 (second_pass broken_services_server no_others)) sample_world) = None"
    by (simp add: second_pass_def second_pass_sections_def load_then_def load_def load_try_def
      broken_services_server_def content_url_def no_others_def sample_world_def sample_page_def
      render_hero_def render_about_def renderText_def querySelector_def own_property_def
      and_then_def set_innerHTML_def Let_def)
  have b2: "fst ((second_pass broken_services_server no_others ! 2)
            (snd (try_steps (take 2 (second_pass broken_services_server no_others)) sample_world)))
       = Some (TypeError ''item.tags.forEach is not a function'')"
    by (simp add: second_pass_def second_pass_sections_def load_then_def load_def load_try_def
      broken_services_server_def content_url_def no_others_def sample_world_def sample_page_def
      render_hero_def render_about_def render_services_def renderText_def renderCards_def
      querySelector_def own_property_def and_then_def set_innerHTML_def createCard_def or_else_def Let_def)
  then have b2': "fst ((second_pass broken_services_server no_others ! 2)
            (snd (try_steps (take 2 (second_pass broken_services_server no_others)) sample_world)))
       \<noteq> None"
    by simp
  note stop = second_pass_in_one_try_block [of broken_services_server no_others sample_world,
    THEN conjunct1, rule_format, OF k conjI, OF b1 b2']
  have b3: "fetched (ContentLoader_init broken_services_server no_others sample_world)
       = [''content/hero.json'', ''content/about.json'', ''content/services.json'']"
    using stop [THEN conjunct2]
    by (simp add: sample_world_def second_pass_types_def content_url_def)
  show ?thesis
    unfolding d f e practice_server_shown anxiety_post_markup plain_service_markup b1 b2 b3
    using w by (simp add: practice_server_documents)
qed

text \<open>
  Claim C3 as stated fails: with a services document in which an item has its tags
  written as a string, the rendering of the services throws, and the resources,
  booking and contact documents are never requested, although each of them would
  load; the containers of the booking and of the contact section stay empty.
\<close>

theorem broken_services_block_later_sections_counterexample:
  "fst (render_services (loaded broken_services_server ''services'') sample_page)
     = Some (TypeError ''item.tags.forEach is not a function'')
   \<and> loaded broken_services_server ''booking'' = JObj [(''title'', JStr ''Title''), (''body'', JStr ''Body'')]
   \<and> fetched (ContentLoader_init broken_services_server no_others sample_world)
       = [''content/hero.json'', ''content/about.json'', ''content/services.json'']
   \<and> errors_logged (ContentLoader_init broken_services_server no_others sample_world)
       = [''Error initializing content loader:'']
   \<and> elements (document (ContentLoader_init broken_services_server no_others sample_world)) ''booking-content''
       = Some []
   \<and> elements (document (ContentLoader_init broken_services_server no_others sample_world)) ''contact-content''
       = Some []"
proof -
  note defs = ContentLoader_init_def second_pass_def second_pass_sections_def load_then_def load_def load_try_def
      broken_services_server_def content_url_def no_others_def sample_world_def sample_page_def
      render_hero_def render_about_def render_services_def renderText_def renderCards_def
      querySelector_def own_property_def and_then_def set_innerHTML_def createCard_def or_else_def Let_def
  have 0: "fst (render_services (loaded broken_services_server ''services'') sample_page)
     = Some (TypeError ''item.tags.forEach is not a function'')"
    by (simp add: loaded_def defs)
  have 1: "loaded broken_services_server ''booking'' = JObj [(''title'', JStr ''Title''), (''body'', JStr ''Body'')]"
    by (simp add: loaded_def broken_services_server_def content_url_def)
  have 2: "fetched (ContentLoader_init broken_services_server no_others sample_world)
       = [''content/hero.json'', ''content/about.json'', ''content/services.json'']"
    by (simp add: defs)
  have 3: "errors_logged (ContentLoader_init broken_services_server no_others sample_world)
       = [''Error initializing content loader:'']"
    by (simp add: defs)
  have 4: "elements (document (ContentLoader_init broken_services_server no_others sample_world)) ''booking-content''
       = Some []"
    by (simp add: defs)
  have 5: "elements (document (ContentLoader_init broken_services_server no_others sample_world)) ''contact-content''
       = Some []"
    by (simp add: defs)
  from 0 1 2 3 4 5 show ?thesis by (intro conjI)
qed

text \<open>
  A text section throws as well when a field that is converted to a string is an
  object with a member named \<open>toString\<close>: with such a title in the booking document
  the pass ends in the booking section, after the about section was shown, and the
  contact document is never requested.
\<close>

lemma object_title_stops_the_pass:
  "renderText (JObj [(''title'', JObj [(''toString'', JNum ''0'')])]) ''#booking-content'' sample_page
     = (Some (TypeError ''Cannot convert object to primitive value''), sample_page)
   \<and> fetched (ContentLoader_init object_title_server no_others sample_world)
       = [''content/hero.json'', ''content/about.json'', ''content/services.json'',
          ''content/resources.json'', ''content/booking.json'']
   \<and> errors_logged (ContentLoader_init object_title_server no_others sample_world)
       = [''Error initializing content loader:'']
   \<and> elements (document (ContentLoader_init object_title_server no_others sample_world)) ''about-content''
       = Some [Markup ''<h3>Title</h3><p>Body</p>'']
   \<and> elements (document (ContentLoader_init object_title_server no_others sample_world)) ''contact-content''
       = Some []"
proof -
  note defs = ContentLoader_init_def second_pass_def second_pass_sections_def load_then_def load_def load_try_def
      object_title_server_def content_url_def no_others_def sample_world_def sample_page_def
      render_hero_def render_about_def render_services_def render_resources_def render_booking_def
      renderText_def renderCards_def renderResources_def
      querySelector_def own_property_def and_then_def set_innerHTML_def Let_def
  have 0: "renderText (JObj [(''title'', JObj [(''toString'', JNum ''0'')])]) ''#booking-content'' sample_page
     = (Some (TypeError ''Cannot convert object to primitive value''), sample_page)"
    by (simp add: renderText_def querySelector_def sample_page_def own_property_def and_then_def)
  have 1: "fetched (ContentLoader_init object_title_server no_others sample_world)
       = [''content/hero.json'', ''content/about.json'', ''content/services.json'',
          ''content/resources.json'', ''content/booking.json'']"
    by (simp add: defs)
  have 2: "errors_logged (ContentLoader_init object_title_server no_others sample_world)
       = [''Error initializing content loader:'']"
    by (simp add: defs)
  have 3: "elements (document (ContentLoader_init object_title_server no_others sample_world)) ''about-content''
       = Some [Markup ''<h3>Title</h3><p>Body</p>'']"
    by (simp add: defs)
  have 4: "elements (document (ContentLoader_init object_title_server no_others sample_world)) ''contact-content''
       = Some []"
    by (simp add: defs)
  from 0 1 2 3 4 show ?thesis by (intro conjI)
qed

end
